theory Spec2Isabelle
  imports Main "HOL-Library.Word"
begin

unbundle bit_operations_syntax

section \<open>Runtime values of the host engine\<close>

text \<open>
  The array-shapes patch works on the host engine's values (\<open>zval\<close>) and hash tables.
  A hash table is the list of its live buckets in insertion order (the order in which
  \<open>ZEND_HASH_FOREACH_VAL\<close> visits them); a bucket's key is a string or an unsigned
  integer, and a string key never equals an integer key (\<open>zend_hash_find\<close> does no
  numeric-string conversion). An object is represented by its class entry, a class entry
  by its name. A reference holds the value it refers to.
\<close>

type_synonym uint8_t = "8 word"
type_synonym uint32_t = "32 word"
type_synonym zend_ulong = "64 word"
type_synonym zend_long = "64 word"
type_synonym zend_string = string

datatype zkey = Str_key zend_string | Num_key zend_ulong

datatype zval =
    IS_NULL
  | IS_FALSE
  | IS_TRUE
  | IS_LONG zend_long
  | IS_DOUBLE zend_ulong
  | IS_STRING zend_string
  | IS_ARRAY "(zkey \<times> zval) list"
  | IS_OBJECT zend_string
  | IS_RESOURCE nat
  | IS_REFERENCE zval

type_synonym HashTable = "(zkey \<times> zval) list"

definition zend_hash_find :: "HashTable \<Rightarrow> zend_string \<Rightarrow> zval option" where
  "zend_hash_find ht k = map_of ht (Str_key k)"

definition zend_hash_index_find :: "HashTable \<Rightarrow> zend_ulong \<Rightarrow> zval option" where
  "zend_hash_index_find ht n = map_of ht (Num_key n)"

definition zend_hash_num_elements :: "HashTable \<Rightarrow> nat" where
  "zend_hash_num_elements ht = length ht"

text \<open>\<open>Z_TYPE_P(val) == IS_ARRAY\<close> with \<open>Z_ARRVAL_P(val)\<close>, and \<open>Z_TYPE_P(val) == IS_OBJECT\<close>
  with \<open>Z_OBJCE_P(val)\<close>: \<open>None\<close> when the value is of another kind.\<close>

definition Z_ARRVAL :: "zval \<Rightarrow> HashTable option" where
  "Z_ARRVAL val = (case val of IS_ARRAY a \<Rightarrow> Some a | _ \<Rightarrow> None)"

definition Z_OBJCE :: "zval \<Rightarrow> zend_string option" where
  "Z_OBJCE val = (case val of IS_OBJECT ce \<Rightarrow> Some ce | _ \<Rightarrow> None)"

text \<open>\<open>if (Z_ISREF_P(val)) val = Z_REFVAL_P(val);\<close> removes one level of indirection.\<close>

definition ZVAL_DEREF :: "zval \<Rightarrow> zval" where
  "ZVAL_DEREF val = (case val of IS_REFERENCE r \<Rightarrow> r | _ \<Rightarrow> val)"

section \<open>Type values (zend\_compile\_array\_shapes.h)\<close>

text \<open>
  A \<open>zend_type\<close> is a pointer and a 32-bit mask. The pointer is untyped in C and read
  through a cast chosen by the mask bits; here the payload carries its kind, the casts
  \<open>ZEND_TYPE_ARRAY_OF_PTR\<close>, \<open>ZEND_TYPE_ARRAY_SHAPE_PTR\<close>, \<open>ZEND_TYPE_LIST\<close> and
  \<open>ZEND_TYPE_NAME\<close> return \<open>None\<close> when the payload is of another kind (reading through
  such a pointer is undefined in C), and the mask bits decide every branch as in the source.

  The descriptors are the structs of the header. \<open>num_elements\<close> is the length of the
  flexible array member \<open>elements\<close>, which is allocated with exactly that many entries.
  The reference counts are not part of this read-only view; they live in the store of
  the section on releasing type values.
\<close>

datatype zend_type = Zend_type (ptr: zend_ptr) (type_mask: uint32_t)
and zend_ptr =
    Ptr_null
  | Ptr_name zend_string
  | Ptr_list "zend_type list"
  | Ptr_array_of zend_array_of
  | Ptr_array_shape zend_array_shape
and zend_array_of = Zend_array_of (element_type: zend_type) (depth: uint8_t)
and zend_array_shape = Zend_array_shape (shape_hash: uint32_t) (elements: "zend_shape_element list")
and zend_shape_element =
  Zend_shape_element (key: "zend_string option") (key_num: zend_ulong)
    (is_string_key: uint8_t) (is_optional: uint8_t) (elem_type: zend_type)

definition num_elements :: "zend_array_shape \<Rightarrow> uint32_t" where
  "num_elements shape = of_nat (length (elements shape))"

definition ZEND_TYPE_ARRAY_OF_BIT :: uint32_t where
  "ZEND_TYPE_ARRAY_OF_BIT = push_bit 24 1"

definition ZEND_TYPE_ARRAY_SHAPE_BIT :: uint32_t where
  "ZEND_TYPE_ARRAY_SHAPE_BIT = push_bit 25 1"

definition ZEND_TYPE_EXTENDED_ARRAY_MASK :: uint32_t where
  "ZEND_TYPE_EXTENDED_ARRAY_MASK = ZEND_TYPE_ARRAY_OF_BIT OR ZEND_TYPE_ARRAY_SHAPE_BIT"

definition ZEND_TYPE_IS_ARRAY_OF :: "zend_type \<Rightarrow> bool" where
  "ZEND_TYPE_IS_ARRAY_OF t \<longleftrightarrow> type_mask t AND ZEND_TYPE_ARRAY_OF_BIT \<noteq> 0"

definition ZEND_TYPE_IS_ARRAY_SHAPE :: "zend_type \<Rightarrow> bool" where
  "ZEND_TYPE_IS_ARRAY_SHAPE t \<longleftrightarrow> type_mask t AND ZEND_TYPE_ARRAY_SHAPE_BIT \<noteq> 0"

definition ZEND_TYPE_HAS_EXTENDED_ARRAY :: "zend_type \<Rightarrow> bool" where
  "ZEND_TYPE_HAS_EXTENDED_ARRAY t \<longleftrightarrow> type_mask t AND ZEND_TYPE_EXTENDED_ARRAY_MASK \<noteq> 0"

definition ZEND_TYPE_ARRAY_OF_PTR :: "zend_type \<Rightarrow> zend_array_of option" where
  "ZEND_TYPE_ARRAY_OF_PTR t = (case ptr t of Ptr_array_of p \<Rightarrow> Some p | _ \<Rightarrow> None)"

definition ZEND_TYPE_ARRAY_SHAPE_PTR :: "zend_type \<Rightarrow> zend_array_shape option" where
  "ZEND_TYPE_ARRAY_SHAPE_PTR t = (case ptr t of Ptr_array_shape p \<Rightarrow> Some p | _ \<Rightarrow> None)"

section \<open>The host engine's constants and functions\<close>

text \<open>
  The patch includes \<open>zend_types.h\<close> and the engine's API, which are not part of the
  repository. Their constants and functions are parameters of the model, collected in
  one record: the \<open>MAY_BE_*\<close> mask constants, the kind bits of a type mask, the mask that
  \<open>ZEND_TYPE_INIT_CODE\<close> gives a built-in type code, the hash \<open>ZSTR_H\<close> of an interned
  string, class lookup and \<open>instanceof_function\<close> (a class entry is a name), and
  \<open>zend_zval_type_name\<close>. Every theorem below holds for every such record, under the
  conditions it states.
\<close>

record zend_host =
  MAY_BE_NULL :: uint32_t
  MAY_BE_FALSE :: uint32_t
  MAY_BE_TRUE :: uint32_t
  MAY_BE_BOOL :: uint32_t
  MAY_BE_LONG :: uint32_t
  MAY_BE_DOUBLE :: uint32_t
  MAY_BE_STRING :: uint32_t
  MAY_BE_ARRAY :: uint32_t
  MAY_BE_OBJECT :: uint32_t
  MAY_BE_RESOURCE :: uint32_t
  MAY_BE_CALLABLE :: uint32_t
  MAY_BE_ITERABLE :: uint32_t
  MAY_BE_VOID :: uint32_t
  MAY_BE_NEVER :: uint32_t
  MAY_BE_MIXED :: uint32_t
  ZEND_TYPE_MAY_BE_MASK :: uint32_t
  ZEND_TYPE_MASK :: uint32_t
  ZEND_TYPE_LIST_BIT :: uint32_t
  ZEND_TYPE_NAME_BIT :: uint32_t
  ZEND_TYPE_UNION_BIT :: uint32_t
  ZEND_TYPE_INTERSECTION_BIT :: uint32_t
  ZEND_TYPE_CODE_MASK :: "uint32_t \<Rightarrow> uint32_t"
  ZSTR_H :: "zend_string \<Rightarrow> zend_ulong"
  zend_lookup_class :: "zend_string \<Rightarrow> zend_string option"
  instanceof_function :: "zend_string \<Rightarrow> zend_string \<Rightarrow> bool"
  zend_ce_traversable :: zend_string
  zend_zval_type_name :: "zval \<Rightarrow> string"

text \<open>Modelled from the spec: the host macros over a type value (\<open>zend_types.h\<close> is not in
  the repository). A type value carries a mask plus at most one payload; \<open>ZEND_TYPE_INIT_NONE\<close>
  is the empty type, the \<open>HAS\<close> macros test the kind bit, \<open>ZEND_TYPE_PURE_MASK\<close> keeps the
  primitive-kind bits, \<open>ZEND_TYPE_IS_SET\<close> tests for a non-empty mask.\<close>

definition ZEND_TYPE_INIT_NONE :: zend_type where
  "ZEND_TYPE_INIT_NONE = Zend_type Ptr_null 0"

definition ZEND_TYPE_HAS_LIST :: "zend_host \<Rightarrow> zend_type \<Rightarrow> bool" where
  "ZEND_TYPE_HAS_LIST h t \<longleftrightarrow> type_mask t AND ZEND_TYPE_LIST_BIT h \<noteq> 0"

definition ZEND_TYPE_LIST :: "zend_type \<Rightarrow> zend_type list option" where
  "ZEND_TYPE_LIST t = (case ptr t of Ptr_list l \<Rightarrow> Some l | _ \<Rightarrow> None)"

definition ZEND_TYPE_HAS_NAME :: "zend_host \<Rightarrow> zend_type \<Rightarrow> bool" where
  "ZEND_TYPE_HAS_NAME h t \<longleftrightarrow> type_mask t AND ZEND_TYPE_NAME_BIT h \<noteq> 0"

definition ZEND_TYPE_NAME :: "zend_type \<Rightarrow> zend_string option" where
  "ZEND_TYPE_NAME t = (case ptr t of Ptr_name n \<Rightarrow> Some n | _ \<Rightarrow> None)"

definition ZEND_TYPE_PURE_MASK :: "zend_host \<Rightarrow> zend_type \<Rightarrow> uint32_t" where
  "ZEND_TYPE_PURE_MASK h t = type_mask t AND ZEND_TYPE_MAY_BE_MASK h"

definition ZEND_TYPE_IS_SET :: "zend_host \<Rightarrow> zend_type \<Rightarrow> bool" where
  "ZEND_TYPE_IS_SET h t \<longleftrightarrow> type_mask t AND ZEND_TYPE_MASK h \<noteq> 0"

text \<open>The two setters of the header: store the descriptor, set the tag bit and the
  general array bit.\<close>

definition ZEND_TYPE_SET_ARRAY_OF_PTR :: "zend_host \<Rightarrow> zend_type \<Rightarrow> zend_array_of \<Rightarrow> zend_type" where
  "ZEND_TYPE_SET_ARRAY_OF_PTR h t p =
     Zend_type (Ptr_array_of p) (type_mask t OR ZEND_TYPE_ARRAY_OF_BIT OR MAY_BE_ARRAY h)"

definition ZEND_TYPE_SET_ARRAY_SHAPE_PTR :: "zend_host \<Rightarrow> zend_type \<Rightarrow> zend_array_shape \<Rightarrow> zend_type" where
  "ZEND_TYPE_SET_ARRAY_SHAPE_PTR h t p =
     Zend_type (Ptr_array_shape p) (type_mask t OR ZEND_TYPE_ARRAY_SHAPE_BIT OR MAY_BE_ARRAY h)"

subsection \<open>A concrete host for evaluation\<close>

text \<open>
  One host on which the definitions are evaluated: the primitive-kind bits are
  \<open>1 << IS_x\<close> for the engine's type codes (\<open>IS_NULL = 1\<close>, \<open>IS_FALSE = 2\<close>, \<open>IS_TRUE = 3\<close>,
  \<open>IS_LONG = 4\<close>, \<open>IS_DOUBLE = 5\<close>, \<open>IS_STRING = 6\<close>, \<open>IS_ARRAY = 7\<close>, \<open>IS_OBJECT = 8\<close>, ...),
  \<open>MAY_BE_BOOL\<close> is false-or-true, a type code's mask lies within the primitive-kind
  bits, the kind bits lie below bit 24 as the header assumes, and the string hash is
  the engine's DJBX33A. It has four classes.
\<close>

fun zstr_hash_loop :: "zend_ulong \<Rightarrow> string \<Rightarrow> zend_ulong" where
  "zstr_hash_loop hash [] = hash"
| "zstr_hash_loop hash (c # cs) = zstr_hash_loop (push_bit 5 hash + hash + of_char c) cs"

fun example_type_name :: "zval \<Rightarrow> string" where
  "example_type_name IS_NULL = ''null''"
| "example_type_name IS_FALSE = ''bool''"
| "example_type_name IS_TRUE = ''bool''"
| "example_type_name (IS_LONG n) = ''int''"
| "example_type_name (IS_DOUBLE d) = ''float''"
| "example_type_name (IS_STRING s) = ''string''"
| "example_type_name (IS_ARRAY ht) = ''array''"
| "example_type_name (IS_OBJECT ce) = ''object''"
| "example_type_name (IS_RESOURCE r) = ''resource''"
| "example_type_name (IS_REFERENCE v) = example_type_name v"

definition example_host :: zend_host where
  "example_host = \<lparr>
     MAY_BE_NULL = 2, MAY_BE_FALSE = 4, MAY_BE_TRUE = 8, MAY_BE_BOOL = 12,
     MAY_BE_LONG = 16, MAY_BE_DOUBLE = 32, MAY_BE_STRING = 64,
     MAY_BE_ARRAY = 128, MAY_BE_OBJECT = 256, MAY_BE_RESOURCE = 512,
     MAY_BE_CALLABLE = 4096, MAY_BE_ITERABLE = 8192,
     MAY_BE_VOID = 16384, MAY_BE_NEVER = 131072, MAY_BE_MIXED = 65536,
     ZEND_TYPE_MAY_BE_MASK = 262143, ZEND_TYPE_MASK = 67108863,
     ZEND_TYPE_LIST_BIT = 4194304, ZEND_TYPE_NAME_BIT = 8388608,
     ZEND_TYPE_UNION_BIT = 262144, ZEND_TYPE_INTERSECTION_BIT = 524288,
     ZEND_TYPE_CODE_MASK = (\<lambda>code. (if code = 18 then 12 else push_bit (unat code) 1) AND 262143),
     ZSTR_H = (\<lambda>s. zstr_hash_loop 5381 s OR push_bit 63 1),
     zend_lookup_class = (\<lambda>name.
       if name \<in> set [''Traversable'', ''Iterator'', ''Countable'', ''ArrayIterator'']
       then Some name else None),
     instanceof_function = (\<lambda>ce expected.
       ce = expected
       \<or> (ce = ''ArrayIterator'' \<and> expected \<in> set [''Traversable'', ''Iterator'', ''Countable''])
       \<or> (ce = ''Iterator'' \<and> expected = ''Traversable'')),
     zend_ce_traversable = ''Traversable'',
     zend_zval_type_name = example_type_name \<rparr>"

section \<open>The compiler (zend\_compile\_array\_shapes.c)\<close>

text \<open>
  The type-expression tree. A node is its kind with its children; \<open>ZEND_AST_TYPE\<close> carries
  the built-in type code (\<open>ast->attr\<close>), a shape element its key literal, its attribute
  word (bit 0 is the optional marker) and its type node. \<open>ZEND_AST_OTHER\<close> stands for every
  node kind the compiler's switch does not name.
\<close>

datatype zend_ast =
    ZEND_AST_TYPE uint32_t
  | ZEND_AST_CLASS_TYPE zend_string
  | ZEND_AST_NAME zend_string
  | ZEND_AST_NULLABLE_TYPE zend_ast
  | ZEND_AST_TYPE_UNION "zend_ast list"
  | ZEND_AST_TYPE_INTERSECTION "zend_ast list"
  | ZEND_AST_TYPE_ARRAY_OF zend_ast
  | ZEND_AST_TYPE_ARRAY_SHAPE "zend_shape_element_ast list"
  | ZEND_AST_OTHER nat
and zend_shape_element_ast =
  ZEND_AST_SHAPE_ELEMENT (key_ast: zval) (attr: uint32_t) (type_ast: zend_ast)

text \<open>\<open>zend_error_noreturn(E_COMPILE_ERROR, ...)\<close> aborts the compilation with a message.
  \<open>Invalid_descriptor_cast\<close> marks the one place where the compiler reads through
  \<open>ZEND_TYPE_ARRAY_OF_PTR\<close> a payload that is not an array-of descriptor.\<close>

datatype compile_error = E_COMPILE_ERROR string | Invalid_descriptor_cast

text \<open>\<open>zend_compute_shape_hash\<close>: \<open>((hash << 5) + hash) ^ x\<close> on 32 bits, over the element
  count and then, per element, the key, the element's type mask and the optional flag.
  \<open>ZSTR_H\<close> and \<open>key_num\<close> are 64-bit and truncated by the assignment to \<open>hash\<close>.\<close>

fun shape_hash_loop :: "zend_host \<Rightarrow> uint32_t \<Rightarrow> zend_shape_element list \<Rightarrow> uint32_t" where
  "shape_hash_loop h hash [] = hash"
| "shape_hash_loop h hash (elem # rest) =
     (let hash1 = (if is_string_key elem \<noteq> 0 \<and> key elem \<noteq> None
                   then (push_bit 5 hash + hash) XOR ucast (ZSTR_H h (the (key elem)))
                   else (push_bit 5 hash + hash) XOR ucast (key_num elem));
          hash2 = (push_bit 5 hash1 + hash1) XOR type_mask (elem_type elem);
          hash3 = (push_bit 5 hash2 + hash2) XOR ucast (is_optional elem)
      in shape_hash_loop h hash3 rest)"

definition zend_compute_shape_hash :: "zend_host \<Rightarrow> zend_shape_element list \<Rightarrow> uint32_t" where
  "zend_compute_shape_hash h elems =
     (let hash = 5381;
          hash = (push_bit 5 hash + hash) XOR of_nat (length elems)
      in shape_hash_loop h hash elems)"

text \<open>
  \<open>zend_compile_type_internal\<close> with the two specialised compilers it delegates to; the
  \<open>for\<close> loops over the children are \<open>compile_type_list\<close> and \<open>compile_shape_elements\<close>.
  \<open>zend_compile_array_of_type\<close> takes the element type node (\<open>ast->child[0]\<close>),
  \<open>zend_compile_array_shape_type\<close> the children of the element list. The \<open>persistent\<close> flag
  selects the allocator and whether a class name is interned; neither changes the value.
\<close>

fun zend_compile_type_internal :: "zend_host \<Rightarrow> zend_ast \<Rightarrow> bool \<Rightarrow> compile_error + zend_type"
and compile_type_list :: "zend_host \<Rightarrow> zend_ast list \<Rightarrow> bool \<Rightarrow> compile_error + zend_type list"
and zend_compile_array_of_type :: "zend_host \<Rightarrow> zend_ast \<Rightarrow> compile_error + zend_type"
and compile_shape_elements :: "zend_host \<Rightarrow> zend_shape_element_ast list \<Rightarrow> compile_error + zend_shape_element list"
and zend_compile_array_shape_type :: "zend_host \<Rightarrow> zend_shape_element_ast list \<Rightarrow> compile_error + zend_type"
where
  "zend_compile_type_internal h (ZEND_AST_TYPE_ARRAY_OF element_type_ast) persistent =
     zend_compile_array_of_type h element_type_ast"
| "zend_compile_type_internal h (ZEND_AST_TYPE_ARRAY_SHAPE element_list) persistent =
     zend_compile_array_shape_type h element_list"
| "zend_compile_type_internal h (ZEND_AST_TYPE code) persistent =
     Inr (Zend_type Ptr_null (ZEND_TYPE_CODE_MASK h code))"
| "zend_compile_type_internal h (ZEND_AST_CLASS_TYPE class_name) persistent =
     Inr (Zend_type (Ptr_name class_name) (ZEND_TYPE_NAME_BIT h))"
| "zend_compile_type_internal h (ZEND_AST_NAME class_name) persistent =
     Inr (Zend_type (Ptr_name class_name) (ZEND_TYPE_NAME_BIT h))"
| "zend_compile_type_internal h (ZEND_AST_NULLABLE_TYPE inner) persistent =
     (case zend_compile_type_internal h inner persistent of
        Inl e \<Rightarrow> Inl e
      | Inr t \<Rightarrow> Inr (Zend_type (ptr t) (type_mask t OR MAY_BE_NULL h)))"
| "zend_compile_type_internal h (ZEND_AST_TYPE_UNION children) persistent =
     (case compile_type_list h children persistent of
        Inl e \<Rightarrow> Inl e
      | Inr types \<Rightarrow>
          Inr (Zend_type (Ptr_list types) (ZEND_TYPE_LIST_BIT h OR ZEND_TYPE_UNION_BIT h)))"
| "zend_compile_type_internal h (ZEND_AST_TYPE_INTERSECTION children) persistent =
     (case compile_type_list h children persistent of
        Inl e \<Rightarrow> Inl e
      | Inr types \<Rightarrow>
          Inr (Zend_type (Ptr_list types) (ZEND_TYPE_LIST_BIT h OR ZEND_TYPE_INTERSECTION_BIT h)))"
| "zend_compile_type_internal h (ZEND_AST_OTHER kind) persistent =
     Inl (E_COMPILE_ERROR ''Invalid type AST node kind'')"
| "compile_type_list h [] persistent = Inr []"
| "compile_type_list h (child # rest) persistent =
     (case zend_compile_type_internal h child persistent of
        Inl e \<Rightarrow> Inl e
      | Inr t \<Rightarrow>
          (case compile_type_list h rest persistent of
             Inl e \<Rightarrow> Inl e
           | Inr ts \<Rightarrow> Inr (t # ts)))"
| "zend_compile_array_of_type h element_type_ast =
     (case zend_compile_type_internal h element_type_ast True of
        Inl e \<Rightarrow> Inl e
      | Inr et \<Rightarrow>
          (if ZEND_TYPE_IS_ARRAY_OF et
           then (case ZEND_TYPE_ARRAY_OF_PTR et of
                   None \<Rightarrow> Inl Invalid_descriptor_cast
                 | Some inner \<Rightarrow>
                     Inr (ZEND_TYPE_SET_ARRAY_OF_PTR h ZEND_TYPE_INIT_NONE
                            (Zend_array_of et (depth inner + 1))))
           else Inr (ZEND_TYPE_SET_ARRAY_OF_PTR h ZEND_TYPE_INIT_NONE (Zend_array_of et 1))))"
| "compile_shape_elements h [] = Inr []"
| "compile_shape_elements h (ZEND_AST_SHAPE_ELEMENT key_zval flags elem_type_ast # rest) =
     (case (case key_zval of
              IS_STRING s \<Rightarrow> Inr (Some s, 0, 1)
            | IS_LONG n \<Rightarrow> Inr (None, n, 0)
            | _ \<Rightarrow> Inl (E_COMPILE_ERROR ''Shape key must be a string or integer'')) of
        Inl e \<Rightarrow> Inl e
      | Inr (k, kn, sk) \<Rightarrow>
          (case zend_compile_type_internal h elem_type_ast True of
             Inl e \<Rightarrow> Inl e
           | Inr t \<Rightarrow>
               (case compile_shape_elements h rest of
                  Inl e \<Rightarrow> Inl e
                | Inr elems \<Rightarrow>
                    Inr (Zend_shape_element k kn sk (if flags AND 1 \<noteq> 0 then 1 else 0) t # elems))))"
| "zend_compile_array_shape_type h element_list =
     (case compile_shape_elements h element_list of
        Inl e \<Rightarrow> Inl e
      | Inr elems \<Rightarrow>
          Inr (ZEND_TYPE_SET_ARRAY_SHAPE_PTR h ZEND_TYPE_INIT_NONE
                 (Zend_array_shape (zend_compute_shape_hash h elems) elems)))"

text \<open>The depth an array-of type value stores, and \<open>ReflectionArrayOfType::getDepth\<close>
  (php\_reflection\_array\_shapes.c): 0 without a descriptor, else the stored byte widened
  to \<open>zend_long\<close>.\<close>

definition stored_depth :: "zend_type \<Rightarrow> uint8_t option" where
  "stored_depth t = map_option depth (ZEND_TYPE_ARRAY_OF_PTR t)"

definition ReflectionArrayOfType_getDepth :: "zend_array_of option \<Rightarrow> zend_long" where
  "ReflectionArrayOfType_getDepth array_of =
     (case array_of of None \<Rightarrow> 0 | Some ao \<Rightarrow> ucast (depth ao))"

section \<open>The structural validator (zend\_execute\_array\_shapes.c)\<close>

text \<open>
  The out-parameters of \<open>zend_validate_array_shape\<close>, as the callers that pass them
  initialise them and as the function resets them on entry. Every caller of
  \<open>zend_validate_array_of\<close> passes a \<open>bad_element\<close> initialised to \<open>NULL\<close>. Both functions
  return their boolean result together with the out-parameters.
\<close>

record shape_out =
  out_missing_key :: "zend_string option"
  out_missing_key_num :: zend_ulong
  out_is_string_key :: bool
  out_bad_value :: "zval option"
  out_failed_element :: "zend_shape_element option"

definition shape_out_init :: shape_out where
  "shape_out_init = \<lparr> out_missing_key = None, out_missing_key_num = 0, out_is_string_key = False,
     out_bad_value = None, out_failed_element = None \<rparr>"

text \<open>The \<open>switch\<close> of \<open>zend_check_type_extended\<close> over the value's kind, on the pure mask.\<close>

definition check_builtin :: "zend_host \<Rightarrow> uint32_t \<Rightarrow> zval \<Rightarrow> bool" where
  "check_builtin h tm val =
     (case val of
        IS_NULL \<Rightarrow> tm AND MAY_BE_NULL h \<noteq> 0
      | IS_FALSE \<Rightarrow> tm AND (MAY_BE_FALSE h OR MAY_BE_BOOL h) \<noteq> 0
      | IS_TRUE \<Rightarrow> tm AND (MAY_BE_TRUE h OR MAY_BE_BOOL h) \<noteq> 0
      | IS_LONG n \<Rightarrow> tm AND MAY_BE_LONG h \<noteq> 0
      | IS_DOUBLE d \<Rightarrow> tm AND MAY_BE_DOUBLE h \<noteq> 0
      | IS_STRING s \<Rightarrow> tm AND MAY_BE_STRING h \<noteq> 0
      | IS_ARRAY a \<Rightarrow> tm AND MAY_BE_ARRAY h \<noteq> 0
      | IS_OBJECT ce \<Rightarrow>
          (if tm AND MAY_BE_OBJECT h \<noteq> 0 then True
           else if tm AND MAY_BE_ITERABLE h \<noteq> 0 \<and> instanceof_function h ce (zend_ce_traversable h)
           then True else False)
      | IS_RESOURCE r \<Rightarrow> tm AND MAY_BE_RESOURCE h \<noteq> 0
      | IS_REFERENCE r \<Rightarrow> False)"

text \<open>The pieces of one iteration of the shape loop: the lookup by key kind, and the
  out-parameters written on each failure path (missing required key; wrong value at a
  key; failure propagated from a nested shape).\<close>

definition shape_lookup :: "zend_shape_element \<Rightarrow> HashTable \<Rightarrow> zval option" where
  "shape_lookup elem ht =
     (if is_string_key elem \<noteq> 0
      then (case key elem of None \<Rightarrow> None | Some k \<Rightarrow> zend_hash_find ht k)
      else zend_hash_index_find ht (key_num elem))"

definition shape_missing :: "zend_shape_element \<Rightarrow> shape_out" where
  "shape_missing elem = shape_out_init \<lparr>
     out_missing_key := (if is_string_key elem \<noteq> 0 then key elem else None),
     out_missing_key_num := (if is_string_key elem = 0 then key_num elem else 0),
     out_is_string_key := (is_string_key elem \<noteq> 0),
     out_failed_element := Some elem \<rparr>"

definition shape_bad :: "zend_shape_element \<Rightarrow> zval \<Rightarrow> shape_out" where
  "shape_bad elem bad = shape_out_init \<lparr> out_bad_value := Some bad, out_failed_element := Some elem \<rparr>"

definition shape_propagate :: "zend_shape_element \<Rightarrow> zval \<Rightarrow> shape_out \<Rightarrow> shape_out" where
  "shape_propagate elem val inner = \<lparr>
     out_missing_key = out_missing_key inner,
     out_missing_key_num = out_missing_key_num inner,
     out_is_string_key = out_is_string_key inner,
     out_bad_value = Some (case out_bad_value inner of Some b \<Rightarrow> b | None \<Rightarrow> val),
     out_failed_element = Some (case out_failed_element inner of Some f \<Rightarrow> f | None \<Rightarrow> elem) \<rparr>"

text \<open>Size facts for the termination proof: every recursive call is on a descriptor
  nested in the current one, or on the rest of the current loop.\<close>

lemma size_array_of_ptr:
  "ZEND_TYPE_ARRAY_OF_PTR t = Some ao \<Longrightarrow> size ao < size t"
  by (cases t) (auto simp: ZEND_TYPE_ARRAY_OF_PTR_def split: zend_ptr.splits)

lemma size_array_shape_ptr:
  "ZEND_TYPE_ARRAY_SHAPE_PTR t = Some sh \<Longrightarrow> size sh < size t"
  by (cases t) (auto simp: ZEND_TYPE_ARRAY_SHAPE_PTR_def split: zend_ptr.splits)

lemma size_type_list:
  "ZEND_TYPE_LIST t = Some l \<Longrightarrow> size_list size l < size t"
  by (cases t) (auto simp: ZEND_TYPE_LIST_def split: zend_ptr.splits)

lemma size_element_type: "size (element_type ao) < size ao"
  by (cases ao) simp

lemma size_elem_type: "size (elem_type e) < size e"
  by (cases e) simp

lemma size_elements: "size_list size (elements sh) < size sh"
  by (cases sh) simp

lemma size_inner_array_of:
  "ZEND_TYPE_ARRAY_OF_PTR (element_type ao) = Some inner \<Longrightarrow> size inner < size ao"
  using size_array_of_ptr [of "element_type ao" inner] size_element_type [of ao] by simp

lemma size_inner_shape:
  "ZEND_TYPE_ARRAY_SHAPE_PTR (element_type ao) = Some sh \<Longrightarrow> size sh < size ao"
  using size_array_shape_ptr [of "element_type ao" sh] size_element_type [of ao] by simp

lemma size_elem_array_of:
  "ZEND_TYPE_ARRAY_OF_PTR (elem_type e) = Some inner \<Longrightarrow> size inner < size e"
  using size_array_of_ptr [of "elem_type e" inner] size_elem_type [of e] by simp

lemma size_elem_shape:
  "ZEND_TYPE_ARRAY_SHAPE_PTR (elem_type e) = Some sh \<Longrightarrow> size sh < size e"
  using size_array_shape_ptr [of "elem_type e" sh] size_elem_type [of e] by simp

text \<open>
  The three mutually recursive functions of the validator. \<open>array_of_foreach\<close> is the
  \<open>ZEND_HASH_FOREACH_VAL\<close> loop over the values still to visit, \<open>shape_for\<close> the \<open>for\<close>
  loop over the declared elements still to visit, \<open>check_intersection\<close> and
  \<open>check_union\<close> the two loops over a type list. The \<open>ce\<close> out-parameter of
  \<open>zend_check_type_extended\<close> is written and never read, and is left out. Where a mask
  bit selects a cast and the payload is of another kind the model fails the check.
\<close>

function zend_validate_array_of :: "zend_host \<Rightarrow> zend_array_of \<Rightarrow> HashTable \<Rightarrow> bool \<times> zval option"
and array_of_foreach :: "zend_host \<Rightarrow> zend_array_of \<Rightarrow> zval list \<Rightarrow> bool \<times> zval option"
and zend_validate_array_shape :: "zend_host \<Rightarrow> zend_array_shape \<Rightarrow> HashTable \<Rightarrow> bool \<times> shape_out"
and shape_for :: "zend_host \<Rightarrow> zend_shape_element list \<Rightarrow> HashTable \<Rightarrow> bool \<times> shape_out"
and zend_check_type_extended :: "zend_host \<Rightarrow> zend_type \<Rightarrow> zval \<Rightarrow> bool"
and check_intersection :: "zend_host \<Rightarrow> zend_type list \<Rightarrow> zval \<Rightarrow> bool"
and check_union :: "zend_host \<Rightarrow> zend_type list \<Rightarrow> zval \<Rightarrow> bool"
where
  "zend_validate_array_of h array_of ht =
     (if zend_hash_num_elements ht = 0 then (True, None)
      else array_of_foreach h array_of (map snd ht))"
| "array_of_foreach h array_of [] = (True, None)"
| "array_of_foreach h array_of (val # rest) =
     (if ZEND_TYPE_IS_ARRAY_OF (element_type array_of) then
        (case Z_ARRVAL val of
           None \<Rightarrow> (False, Some val)
         | Some a \<Rightarrow>
             (case ZEND_TYPE_ARRAY_OF_PTR (element_type array_of) of
                None \<Rightarrow> (False, None)
              | Some inner \<Rightarrow>
                  (let r = zend_validate_array_of h inner a
                   in if \<not> fst r then (False, snd r)
                      else array_of_foreach h array_of rest)))
      else if ZEND_TYPE_IS_ARRAY_SHAPE (element_type array_of) then
        (case Z_ARRVAL val of
           None \<Rightarrow> (False, Some val)
         | Some a \<Rightarrow>
             (case ZEND_TYPE_ARRAY_SHAPE_PTR (element_type array_of) of
                None \<Rightarrow> (False, None)
              | Some inner_shape \<Rightarrow>
                  (let r = zend_validate_array_shape h inner_shape a
                   in if \<not> fst r
                      then (False, Some (case out_bad_value (snd r) of Some bad_val \<Rightarrow> bad_val | None \<Rightarrow> val))
                      else array_of_foreach h array_of rest)))
      else if \<not> zend_check_type_extended h (element_type array_of) val then (False, Some val)
      else array_of_foreach h array_of rest)"
| "zend_validate_array_shape h shape ht = shape_for h (elements shape) ht"
| "shape_for h [] ht = (True, shape_out_init)"
| "shape_for h (elem # rest) ht =
     (case shape_lookup elem ht of
        None \<Rightarrow>
          (if is_optional elem \<noteq> 0 then shape_for h rest ht
           else (False, shape_missing elem))
      | Some val \<Rightarrow>
          (if ZEND_TYPE_IS_ARRAY_OF (elem_type elem) then
             (case Z_ARRVAL val of
                None \<Rightarrow> (False, shape_bad elem val)
              | Some a \<Rightarrow>
                  (case ZEND_TYPE_ARRAY_OF_PTR (elem_type elem) of
                     None \<Rightarrow> (False, shape_out_init)
                   | Some inner_array_of \<Rightarrow>
                       (let r = zend_validate_array_of h inner_array_of a
                        in if \<not> fst r
                           then (False, shape_bad elem (case snd r of Some inner_bad \<Rightarrow> inner_bad | None \<Rightarrow> val))
                           else shape_for h rest ht)))
           else if ZEND_TYPE_IS_ARRAY_SHAPE (elem_type elem) then
             (case Z_ARRVAL val of
                None \<Rightarrow> (False, shape_bad elem val)
              | Some a \<Rightarrow>
                  (case ZEND_TYPE_ARRAY_SHAPE_PTR (elem_type elem) of
                     None \<Rightarrow> (False, shape_out_init)
                   | Some inner_shape \<Rightarrow>
                       (let r = zend_validate_array_shape h inner_shape a
                        in if \<not> fst r then (False, shape_propagate elem val (snd r))
                           else shape_for h rest ht)))
           else if \<not> zend_check_type_extended h (elem_type elem) val
             then (False, shape_bad elem val)
           else shape_for h rest ht))"
| "zend_check_type_extended h t v =
     (if ZEND_TYPE_IS_ARRAY_OF t then
        (case Z_ARRVAL (ZVAL_DEREF v) of
           None \<Rightarrow> False
         | Some a \<Rightarrow>
             (case ZEND_TYPE_ARRAY_OF_PTR t of
                None \<Rightarrow> False
              | Some array_of \<Rightarrow> fst (zend_validate_array_of h array_of a)))
      else if ZEND_TYPE_IS_ARRAY_SHAPE t then
        (case Z_ARRVAL (ZVAL_DEREF v) of
           None \<Rightarrow> False
         | Some a \<Rightarrow>
             (case ZEND_TYPE_ARRAY_SHAPE_PTR t of
                None \<Rightarrow> False
              | Some shape \<Rightarrow> fst (zend_validate_array_shape h shape a)))
      else if ZEND_TYPE_HAS_LIST h t then
        (case ZEND_TYPE_LIST t of
           None \<Rightarrow> False
         | Some l \<Rightarrow>
             (if type_mask t AND ZEND_TYPE_INTERSECTION_BIT h \<noteq> 0
              then check_intersection h l (ZVAL_DEREF v)
              else check_union h l (ZVAL_DEREF v)))
      else if ZEND_TYPE_HAS_NAME h t then
        (case ZEND_TYPE_NAME t of
           None \<Rightarrow> False
         | Some name \<Rightarrow>
             (case Z_OBJCE (ZVAL_DEREF v) of
                None \<Rightarrow> False
              | Some ce \<Rightarrow>
                  (case zend_lookup_class h name of
                     None \<Rightarrow> False
                   | Some expected_ce \<Rightarrow> instanceof_function h ce expected_ce)))
      else check_builtin h (ZEND_TYPE_PURE_MASK h t) (ZVAL_DEREF v))"
| "check_intersection h [] val = True"
| "check_intersection h (m # ms) val =
     (if \<not> zend_check_type_extended h m val then False else check_intersection h ms val)"
| "check_union h [] val = False"
| "check_union h (m # ms) val =
     (if zend_check_type_extended h m val then True else check_union h ms val)"
  by pat_completeness (auto split del: if_split)
termination
  apply (relation "inv_image (less_than <*lex*> less_than)
    (case_sum
      (case_sum (\<lambda>(h, ao, ht). (size ao, Suc (length ht)))
        (case_sum (\<lambda>(h, ao, vs). (size ao, length vs)) (\<lambda>(h, sh, ht). (size sh, 0))))
      (case_sum
        (case_sum (\<lambda>(h, es, ht). (size_list size es, 0)) (\<lambda>(h, t, v). (size t, 0)))
        (case_sum (\<lambda>(h, l, v). (size_list size l, 0)) (\<lambda>(h, l, v). (size_list size l, 0)))))")
  apply (auto dest: size_inner_array_of size_inner_shape size_elem_array_of size_elem_shape
      size_array_of_ptr size_array_shape_ptr size_type_list
      simp: size_element_type size_elem_type size_elements)
  apply (simp add: less_SucI trans_less_add1 size_elem_type)
  done

text \<open>The defining equations are used by name: the simplifier does not unfold them on
  its own.\<close>

declare zend_validate_array_of.simps [simp del]
declare array_of_foreach.simps [simp del]
declare zend_validate_array_shape.simps [simp del]
declare shape_for.simps [simp del]
declare zend_check_type_extended.simps [simp del]

text \<open>
  What the two loops decide per value: \<open>value_matches\<close> is the nested dispatch both loops
  apply to a found value (the array-of matcher, the shape matcher, or the scalar/class
  check), \<open>element_ok\<close> is one iteration of the shape loop: an absent key is accepted when
  the element is optional, a present key when its value matches.
\<close>

definition value_matches :: "zend_host \<Rightarrow> zend_type \<Rightarrow> zval \<Rightarrow> bool" where
  "value_matches h t val =
     (if ZEND_TYPE_IS_ARRAY_OF t then
        (case Z_ARRVAL val of
           None \<Rightarrow> False
         | Some a \<Rightarrow>
             (case ZEND_TYPE_ARRAY_OF_PTR t of
                None \<Rightarrow> False
              | Some inner \<Rightarrow> fst (zend_validate_array_of h inner a)))
      else if ZEND_TYPE_IS_ARRAY_SHAPE t then
        (case Z_ARRVAL val of
           None \<Rightarrow> False
         | Some a \<Rightarrow>
             (case ZEND_TYPE_ARRAY_SHAPE_PTR t of
                None \<Rightarrow> False
              | Some inner_shape \<Rightarrow> fst (zend_validate_array_shape h inner_shape a)))
      else zend_check_type_extended h t val)"

definition element_ok :: "zend_host \<Rightarrow> zend_shape_element \<Rightarrow> HashTable \<Rightarrow> bool" where
  "element_ok h elem ht =
     (case shape_lookup elem ht of
        None \<Rightarrow> is_optional elem \<noteq> 0
      | Some val \<Rightarrow> value_matches h (elem_type elem) val)"

section \<open>Type equivalence (zend\_compile\_array\_shapes.c)\<close>

text \<open>Modelled from the spec: the host's string comparisons (\<open>zend_string.h\<close> is not in the
  repository). \<open>zend_string_equals\<close> compares two strings byte for byte,
  \<open>zend_string_equals_ci\<close> compares them after lowering the ASCII letters. An element
  key is a pointer that may be \<open>NULL\<close>; comparing through a \<open>NULL\<close> key is undefined in C
  and gives \<open>False\<close> here.\<close>

definition zend_tolower_ascii :: "char \<Rightarrow> char" where
  "zend_tolower_ascii c =
     (if 65 \<le> (of_char c :: nat) \<and> (of_char c :: nat) \<le> 90
      then char_of ((of_char c :: nat) + 32) else c)"

definition zend_string_equals_ci :: "zend_string \<Rightarrow> zend_string \<Rightarrow> bool" where
  "zend_string_equals_ci s1 s2 \<longleftrightarrow>
     length s1 = length s2 \<and> map zend_tolower_ascii s1 = map zend_tolower_ascii s2"

definition zend_string_equals :: "zend_string option \<Rightarrow> zend_string option \<Rightarrow> bool" where
  "zend_string_equals s1 s2 =
     (case s1 of None \<Rightarrow> False
      | Some x \<Rightarrow> (case s2 of None \<Rightarrow> False | Some y \<Rightarrow> x = y))"

text \<open>
  \<open>zend_types_are_equivalent\<close>. The \<open>for\<close> loop over the element pairs is
  \<open>shape_elements_equivalent\<close>; the two element arrays have \<open>num_elements\<close> entries each,
  and the loop is entered only when the two counts are equal. A descriptor read through
  a cast of the wrong kind is undefined in C and gives \<open>False\<close>.
\<close>

function zend_types_are_equivalent :: "zend_host \<Rightarrow> zend_type \<Rightarrow> zend_type \<Rightarrow> bool"
and shape_elements_equivalent :: "zend_host \<Rightarrow> zend_shape_element list \<Rightarrow> zend_shape_element list \<Rightarrow> bool"
where
  "zend_types_are_equivalent h a b =
     (if type_mask a AND ZEND_TYPE_EXTENDED_ARRAY_MASK \<noteq> type_mask b AND ZEND_TYPE_EXTENDED_ARRAY_MASK
      then False
      else if ZEND_TYPE_IS_ARRAY_OF a then
        (if \<not> ZEND_TYPE_IS_ARRAY_OF b then False
         else (case ZEND_TYPE_ARRAY_OF_PTR a of
                 None \<Rightarrow> False
               | Some ao_a \<Rightarrow>
                   (case ZEND_TYPE_ARRAY_OF_PTR b of
                      None \<Rightarrow> False
                    | Some ao_b \<Rightarrow>
                        zend_types_are_equivalent h (element_type ao_a) (element_type ao_b))))
      else if ZEND_TYPE_IS_ARRAY_SHAPE a then
        (if \<not> ZEND_TYPE_IS_ARRAY_SHAPE b then False
         else (case ZEND_TYPE_ARRAY_SHAPE_PTR a of
                 None \<Rightarrow> False
               | Some shape_a \<Rightarrow>
                   (case ZEND_TYPE_ARRAY_SHAPE_PTR b of
                      None \<Rightarrow> False
                    | Some shape_b \<Rightarrow>
                        (if shape_hash shape_a \<noteq> shape_hash shape_b then False
                         else if num_elements shape_a \<noteq> num_elements shape_b then False
                         else shape_elements_equivalent h (elements shape_a) (elements shape_b)))))
      else if ZEND_TYPE_PURE_MASK h a \<noteq> ZEND_TYPE_PURE_MASK h b then False
      else if ZEND_TYPE_HAS_NAME h a \<and> ZEND_TYPE_HAS_NAME h b then
        (case ZEND_TYPE_NAME a of
           None \<Rightarrow> False
         | Some name_a \<Rightarrow>
             (case ZEND_TYPE_NAME b of
                None \<Rightarrow> False
              | Some name_b \<Rightarrow> zend_string_equals_ci name_a name_b))
      else \<not> ZEND_TYPE_HAS_NAME h a \<and> \<not> ZEND_TYPE_HAS_NAME h b)"
| "shape_elements_equivalent h [] [] = True"
| "shape_elements_equivalent h (elem_a # rest_a) (elem_b # rest_b) =
     (if is_string_key elem_a \<noteq> is_string_key elem_b then False
      else if is_string_key elem_a \<noteq> 0 \<and> \<not> zend_string_equals (key elem_a) (key elem_b) then False
      else if is_string_key elem_a = 0 \<and> key_num elem_a \<noteq> key_num elem_b then False
      else if is_optional elem_a \<noteq> is_optional elem_b then False
      else if \<not> zend_types_are_equivalent h (elem_type elem_a) (elem_type elem_b) then False
      else shape_elements_equivalent h rest_a rest_b)"
| "shape_elements_equivalent h [] (elem_b # rest_b) = False"
| "shape_elements_equivalent h (elem_a # rest_a) [] = False"
  by pat_completeness (auto split del: if_split)
termination
  apply (relation "measure (case_sum (\<lambda>(h, a, b). size a) (\<lambda>(h, as, bs). size_list size as))")
  apply (auto dest: size_array_of_ptr size_array_shape_ptr simp: size_element_type size_elem_type size_elements)
  apply (metis size_array_of_ptr size_element_type less_trans)
  apply (metis size_array_shape_ptr size_elements less_trans)
  apply (simp_all add: less_SucI trans_less_add1 size_elem_type)
  done

declare zend_types_are_equivalent.simps [simp del]

text \<open>What the element loop compares before it recurses into the element types: the key
  kind, the key itself and the optional flag.\<close>

definition element_keys_agree :: "zend_shape_element \<Rightarrow> zend_shape_element \<Rightarrow> bool" where
  "element_keys_agree ea eb \<longleftrightarrow>
     is_string_key ea = is_string_key eb
     \<and> (if is_string_key ea \<noteq> 0 then key ea \<noteq> None \<and> key ea = key eb
         else key_num ea = key_num eb)
     \<and> is_optional ea = is_optional eb"

text \<open>
  A type value is well-formed when its payload is of the kind its tag bits announce: a
  descriptor exactly when the matching tag bit is set (array-of taking precedence, as in
  every dispatch of the source), a name bit only on a name payload, a string-keyed shape
  element with its key string, and so on recursively through the descriptors. The
  condition \<open>host_ok\<close> on the host says that the two tag bits of the header are free: no
  \<open>MAY_BE_*\<close> constant, kind bit or type-code mask of the engine uses them, and the name
  bit is distinct from the null bit, the list bits and every type-code mask.
\<close>

fun wf_type :: "zend_host \<Rightarrow> zend_type \<Rightarrow> bool"
and wf_ptr :: "zend_host \<Rightarrow> uint32_t \<Rightarrow> zend_ptr \<Rightarrow> bool"
and wf_array_of :: "zend_host \<Rightarrow> zend_array_of \<Rightarrow> bool"
and wf_array_shape :: "zend_host \<Rightarrow> zend_array_shape \<Rightarrow> bool"
and wf_elements :: "zend_host \<Rightarrow> zend_shape_element list \<Rightarrow> bool"
and wf_element :: "zend_host \<Rightarrow> zend_shape_element \<Rightarrow> bool"
where
  "wf_type h (Zend_type p m) = wf_ptr h m p"
| "wf_ptr h m Ptr_null =
     (m AND ZEND_TYPE_ARRAY_OF_BIT = 0 \<and> m AND ZEND_TYPE_ARRAY_SHAPE_BIT = 0
      \<and> m AND ZEND_TYPE_NAME_BIT h = 0)"
| "wf_ptr h m (Ptr_name n) =
     (m AND ZEND_TYPE_ARRAY_OF_BIT = 0 \<and> m AND ZEND_TYPE_ARRAY_SHAPE_BIT = 0)"
| "wf_ptr h m (Ptr_list l) =
     (m AND ZEND_TYPE_ARRAY_OF_BIT = 0 \<and> m AND ZEND_TYPE_ARRAY_SHAPE_BIT = 0
      \<and> m AND ZEND_TYPE_NAME_BIT h = 0)"
| "wf_ptr h m (Ptr_array_of ao) = (m AND ZEND_TYPE_ARRAY_OF_BIT \<noteq> 0 \<and> wf_array_of h ao)"
| "wf_ptr h m (Ptr_array_shape sh) =
     (m AND ZEND_TYPE_ARRAY_OF_BIT = 0 \<and> m AND ZEND_TYPE_ARRAY_SHAPE_BIT \<noteq> 0 \<and> wf_array_shape h sh)"
| "wf_array_of h (Zend_array_of et d) = wf_type h et"
| "wf_array_shape h (Zend_array_shape hash es) = wf_elements h es"
| "wf_elements h [] = True"
| "wf_elements h (e # es) = (wf_element h e \<and> wf_elements h es)"
| "wf_element h (Zend_shape_element k kn sk opt t) = ((sk \<noteq> 0 \<longrightarrow> k \<noteq> None) \<and> wf_type h t)"

definition host_ok :: "zend_host \<Rightarrow> bool" where
  "host_ok h \<longleftrightarrow>
     MAY_BE_ARRAY h AND ZEND_TYPE_EXTENDED_ARRAY_MASK = 0
     \<and> MAY_BE_NULL h AND (ZEND_TYPE_EXTENDED_ARRAY_MASK OR ZEND_TYPE_NAME_BIT h) = 0
     \<and> ZEND_TYPE_NAME_BIT h AND ZEND_TYPE_EXTENDED_ARRAY_MASK = 0
     \<and> (ZEND_TYPE_LIST_BIT h OR ZEND_TYPE_UNION_BIT h OR ZEND_TYPE_INTERSECTION_BIT h)
          AND (ZEND_TYPE_EXTENDED_ARRAY_MASK OR ZEND_TYPE_NAME_BIT h) = 0
     \<and> (\<forall>code. ZEND_TYPE_CODE_MASK h code
            AND (ZEND_TYPE_EXTENDED_ARRAY_MASK OR ZEND_TYPE_NAME_BIT h) = 0)"

section \<open>The stringifier (zend\_compile\_array\_shapes.c)\<close>

text \<open>Modelled from the spec: the host's string builder (\<open>smart_str.h\<close> is not in the
  repository). A \<open>smart_str\<close> is the string built so far, \<open>smart_str_appends\<close>,
  \<open>smart_str_append\<close> and \<open>smart_str_appendc\<close> append at its end, and
  \<open>smart_str_append_long\<close> appends a signed integer in decimal.\<close>

fun decimal_digits :: "nat \<Rightarrow> string" where
  "decimal_digits n =
     (if n < 10 then [''0123456789'' ! n]
      else decimal_digits (n div 10) @ [''0123456789'' ! (n mod 10)])"

declare decimal_digits.simps [simp del]

definition smart_str_append_long :: "string \<Rightarrow> zend_long \<Rightarrow> string" where
  "smart_str_append_long buf num =
     buf @ (if sint num < 0 then CHR ''-'' # decimal_digits (nat (- sint num))
            else decimal_digits (nat (sint num)))"

text \<open>
  The branch for built-in types tests fourteen mask constants one after the other; each
  test that fires appends \<open>|\<close> unless it is the first and then its keyword.
  \<open>append_type_name\<close> is one such block, on the buffer and the \<open>first\<close> flag.
\<close>

definition append_type_name :: "bool \<Rightarrow> string \<Rightarrow> string \<times> bool \<Rightarrow> string \<times> bool" where
  "append_type_name cond name st =
     (if cond then ((if \<not> snd st then fst st @ ''|'' else fst st) @ name, False) else st)"

definition builtin_type_to_string :: "zend_host \<Rightarrow> zend_type \<Rightarrow> string" where
  "builtin_type_to_string h t =
     (let mask = ZEND_TYPE_PURE_MASK h t;
          non_null = mask AND NOT (MAY_BE_NULL h);
          nullable = (mask AND MAY_BE_NULL h \<noteq> 0 \<and> non_null \<noteq> 0 \<and> non_null AND (non_null - 1) = 0);
          buf = (if nullable then ''?'' else []);
          mask = (if nullable then non_null else mask);
          st = (buf, True);
          st = append_type_name (mask AND MAY_BE_BOOL h \<noteq> 0) ''bool'' st;
          st = append_type_name (mask AND MAY_BE_LONG h \<noteq> 0) ''int'' st;
          st = append_type_name (mask AND MAY_BE_DOUBLE h \<noteq> 0) ''float'' st;
          st = append_type_name (mask AND MAY_BE_STRING h \<noteq> 0) ''string'' st;
          st = append_type_name (mask AND MAY_BE_ARRAY h \<noteq> 0 \<and> \<not> ZEND_TYPE_HAS_EXTENDED_ARRAY t) ''array'' st;
          st = append_type_name (mask AND MAY_BE_OBJECT h \<noteq> 0) ''object'' st;
          st = append_type_name (mask AND MAY_BE_CALLABLE h \<noteq> 0) ''callable'' st;
          st = append_type_name (mask AND MAY_BE_ITERABLE h \<noteq> 0) ''iterable'' st;
          st = append_type_name (mask AND MAY_BE_VOID h \<noteq> 0) ''void'' st;
          st = append_type_name (mask AND MAY_BE_NEVER h \<noteq> 0) ''never'' st;
          st = append_type_name (mask AND MAY_BE_NULL h \<noteq> 0) ''null'' st;
          st = append_type_name (mask AND MAY_BE_FALSE h \<noteq> 0) ''false'' st;
          st = append_type_name (mask AND MAY_BE_TRUE h \<noteq> 0) ''true'' st;
          st = append_type_name (mask AND MAY_BE_MIXED h \<noteq> 0) ''mixed'' st
      in if snd st then fst st @ ''unknown'' else fst st)"

text \<open>
  \<open>zend_type_to_string_extended\<close>; \<open>shape_elements_to_string\<close> and \<open>type_list_to_string\<close>
  are its two \<open>for\<close> loops, on the index \<open>i\<close> and the buffer. The result is the buffer, the
  empty string when nothing was appended. A payload read through a cast of the wrong
  kind is undefined in C and gives \<open>None\<close>.
\<close>

function zend_type_to_string_extended :: "zend_host \<Rightarrow> zend_type \<Rightarrow> string option"
and shape_elements_to_string :: "zend_host \<Rightarrow> nat \<Rightarrow> zend_shape_element list \<Rightarrow> string \<Rightarrow> string option"
and type_list_to_string :: "zend_host \<Rightarrow> string \<Rightarrow> nat \<Rightarrow> zend_type list \<Rightarrow> string \<Rightarrow> string option"
where
  "zend_type_to_string_extended h t =
     (if ZEND_TYPE_IS_ARRAY_OF t then
        (case ZEND_TYPE_ARRAY_OF_PTR t of
           None \<Rightarrow> None
         | Some array_of \<Rightarrow>
             (case zend_type_to_string_extended h (element_type array_of) of
                None \<Rightarrow> None
              | Some element_str \<Rightarrow> Some (''array<'' @ element_str @ ''>'')))
      else if ZEND_TYPE_IS_ARRAY_SHAPE t then
        (case ZEND_TYPE_ARRAY_SHAPE_PTR t of
           None \<Rightarrow> None
         | Some shape \<Rightarrow>
             (case shape_elements_to_string h 0 (elements shape) ''array{'' of
                None \<Rightarrow> None
              | Some buf \<Rightarrow> Some (buf @ ''}'')))
      else if ZEND_TYPE_HAS_LIST h t then
        (case ZEND_TYPE_LIST t of
           None \<Rightarrow> None
         | Some types \<Rightarrow>
             type_list_to_string h
               (if type_mask t AND ZEND_TYPE_INTERSECTION_BIT h \<noteq> 0 then ''&'' else ''|'')
               0 types [])
      else if ZEND_TYPE_HAS_NAME h t then ZEND_TYPE_NAME t
      else Some (builtin_type_to_string h t))"
| "shape_elements_to_string h i [] buf = Some buf"
| "shape_elements_to_string h i (elem # rest) buf =
     (let buf = (if i > 0 then buf @ '', '' else buf);
          buf = (if is_string_key elem \<noteq> 0 \<and> key elem \<noteq> None then buf @ the (key elem)
                 else smart_str_append_long buf (key_num elem));
          buf = (if is_optional elem \<noteq> 0 then buf @ ''?'' else buf);
          buf = buf @ '': ''
      in case zend_type_to_string_extended h (elem_type elem) of
           None \<Rightarrow> None
         | Some type_str \<Rightarrow> shape_elements_to_string h (i + 1) rest (buf @ type_str))"
| "type_list_to_string h separator i [] buf = Some buf"
| "type_list_to_string h separator i (member # rest) buf =
     (let buf = (if i > 0 then buf @ separator else buf)
      in case zend_type_to_string_extended h member of
           None \<Rightarrow> None
         | Some member_str \<Rightarrow> type_list_to_string h separator (i + 1) rest (buf @ member_str))"
  by pat_completeness (auto split del: if_split)
termination
  apply (relation "measure (case_sum (\<lambda>(h, t). size t)
      (case_sum (\<lambda>(h, i, es, buf). size_list size es) (\<lambda>(h, sep, i, ts, buf). size_list size ts)))")
  apply (auto dest: size_array_of_ptr size_array_shape_ptr size_type_list
      simp: size_element_type size_elem_type size_elements)
  apply (metis size_array_of_ptr size_element_type less_trans)
  apply (metis size_array_shape_ptr size_elements less_trans)
  apply (simp_all add: less_SucI trans_less_add1 size_elem_type)
  done

declare zend_type_to_string_extended.simps [simp del]

text \<open>What the renderings are compared with: a list of strings joined by a separator, the
  label of a shape element (its key, followed by \<open>?\<close> when it is optional), and the
  keywords of a mask, which are those of the fourteen constants, in the order of the
  source, that the mask intersects.\<close>

fun join_with :: "string \<Rightarrow> string list \<Rightarrow> string" where
  "join_with sep [] = []"
| "join_with sep [x] = x"
| "join_with sep (x # y # ys) = x @ sep @ join_with sep (y # ys)"

definition element_label :: "zend_shape_element \<Rightarrow> string" where
  "element_label elem =
     (if is_string_key elem \<noteq> 0 \<and> key elem \<noteq> None then the (key elem)
      else smart_str_append_long [] (key_num elem))
     @ (if is_optional elem \<noteq> 0 then ''?'' else [])"

definition type_name_table :: "zend_host \<Rightarrow> (uint32_t \<times> string) list" where
  "type_name_table h =
     [(MAY_BE_BOOL h, ''bool''), (MAY_BE_LONG h, ''int''), (MAY_BE_DOUBLE h, ''float''),
      (MAY_BE_STRING h, ''string''), (MAY_BE_ARRAY h, ''array''), (MAY_BE_OBJECT h, ''object''),
      (MAY_BE_CALLABLE h, ''callable''), (MAY_BE_ITERABLE h, ''iterable''),
      (MAY_BE_VOID h, ''void''), (MAY_BE_NEVER h, ''never''), (MAY_BE_NULL h, ''null''),
      (MAY_BE_FALSE h, ''false''), (MAY_BE_TRUE h, ''true''), (MAY_BE_MIXED h, ''mixed'')]"

definition type_names_of :: "zend_host \<Rightarrow> uint32_t \<Rightarrow> string list" where
  "type_names_of h m = map snd (filter (\<lambda>(c, name). m AND c \<noteq> 0) (type_name_table h))"

section \<open>Properties of the compiler\<close>

lemma is_array_of_set_array_of:
  "ZEND_TYPE_IS_ARRAY_OF (ZEND_TYPE_SET_ARRAY_OF_PTR h t ao)"
  unfolding ZEND_TYPE_IS_ARRAY_OF_def ZEND_TYPE_SET_ARRAY_OF_PTR_def ZEND_TYPE_ARRAY_OF_BIT_def
  apply simp
  apply (rule notI)
  apply (drule_tac f="\<lambda>w. bit w 24" in arg_cong)
  apply (simp add: bit_simps)
  done

lemma array_of_ptr_set_array_of:
  "ZEND_TYPE_ARRAY_OF_PTR (ZEND_TYPE_SET_ARRAY_OF_PTR h t ao) = Some ao"
  by (simp add: ZEND_TYPE_ARRAY_OF_PTR_def ZEND_TYPE_SET_ARRAY_OF_PTR_def)

lemma shape_not_array_of:
  "MAY_BE_ARRAY h AND ZEND_TYPE_ARRAY_OF_BIT = 0 \<Longrightarrow>
   \<not> ZEND_TYPE_IS_ARRAY_OF (ZEND_TYPE_SET_ARRAY_SHAPE_PTR h ZEND_TYPE_INIT_NONE sh)"
  by (simp add: ZEND_TYPE_IS_ARRAY_OF_def ZEND_TYPE_SET_ARRAY_SHAPE_PTR_def ZEND_TYPE_INIT_NONE_def
      bit.conj_disj_distrib2 ZEND_TYPE_ARRAY_SHAPE_BIT_def ZEND_TYPE_ARRAY_OF_BIT_def)

lemma compile_array_of_cases:
  assumes "zend_compile_array_of_type h e = Inr t"
  shows "\<exists>et d. t = ZEND_TYPE_SET_ARRAY_OF_PTR h ZEND_TYPE_INIT_NONE (Zend_array_of et d)
      \<and> zend_compile_type_internal h e True = Inr et
      \<and> (\<not> ZEND_TYPE_IS_ARRAY_OF et \<longrightarrow> d = 1)
      \<and> (ZEND_TYPE_IS_ARRAY_OF et \<longrightarrow> (\<exists>inner. ZEND_TYPE_ARRAY_OF_PTR et = Some inner \<and> d = depth inner + 1))"
  using assms
  by (auto split: sum.splits if_splits option.splits)

lemma depth_chain:
  assumes "zend_compile_type_internal h base True = Inr bt" and "\<not> ZEND_TYPE_IS_ARRAY_OF bt"
  shows "\<exists>et. zend_compile_type_internal h ((ZEND_AST_TYPE_ARRAY_OF ^^ Suc n) base) p =
           Inr (ZEND_TYPE_SET_ARRAY_OF_PTR h ZEND_TYPE_INIT_NONE (Zend_array_of et (of_nat (Suc n))))"
proof (induction n arbitrary: p)
  case 0
  show ?case using assms by auto
next
  case (Suc n)
  define x where "x = (ZEND_AST_TYPE_ARRAY_OF ^^ Suc n) base"
  from Suc.IH [of True] obtain et where
    x: "zend_compile_type_internal h x True =
       Inr (ZEND_TYPE_SET_ARRAY_OF_PTR h ZEND_TYPE_INIT_NONE (Zend_array_of et (of_nat (Suc n))))"
    unfolding x_def by blast
  have "(ZEND_AST_TYPE_ARRAY_OF ^^ Suc (Suc n)) base = ZEND_AST_TYPE_ARRAY_OF x"
    by (simp add: x_def)
  then have "zend_compile_type_internal h ((ZEND_AST_TYPE_ARRAY_OF ^^ Suc (Suc n)) base) p =
      zend_compile_array_of_type h x"
    by (simp only: zend_compile_type_internal.simps)
  also have "\<dots> = Inr (ZEND_TYPE_SET_ARRAY_OF_PTR h ZEND_TYPE_INIT_NONE
      (Zend_array_of (ZEND_TYPE_SET_ARRAY_OF_PTR h ZEND_TYPE_INIT_NONE (Zend_array_of et (of_nat (Suc n))))
         (of_nat (Suc (Suc n)))))"
    using x by (simp add: add.commute is_array_of_set_array_of array_of_ptr_set_array_of)
  finally show ?case by blast
qed

text \<open>
  Claim C7, as amended. For every compiled array-of type the stored depth is 1 when the
  compiled element type is not an array-of, and when it is, the stored depth is the
  element descriptor's depth plus 1 computed in the 8-bit field, that is
  \<open>(1 + element depth) mod 256\<close>. A shape-typed element does not add depth, on every host
  whose \<open>MAY_BE_ARRAY\<close> does not contain the array-of tag bit. Compiling
  \<open>array<array<array<T>>>\<close> for a built-in \<open>T\<close> stores depth 3, and compiling
  \<open>array<array{...}>\<close> stores depth 1.
\<close>

theorem array_of_depth_rule:
  "(zend_compile_type_internal h (ZEND_AST_TYPE_ARRAY_OF e) p = Inr t \<longrightarrow>
      (\<exists>et d. t = ZEND_TYPE_SET_ARRAY_OF_PTR h ZEND_TYPE_INIT_NONE (Zend_array_of et d)
         \<and> stored_depth t = Some d
         \<and> zend_compile_type_internal h e True = Inr et
         \<and> (\<not> ZEND_TYPE_IS_ARRAY_OF et \<longrightarrow> d = 1)
         \<and> (ZEND_TYPE_IS_ARRAY_OF et \<longrightarrow>
              (\<exists>inner. ZEND_TYPE_ARRAY_OF_PTR et = Some inner \<and> d = depth inner + 1
                 \<and> unat d = (1 + unat (depth inner)) mod 256))))
   \<and> (\<not> ZEND_TYPE_IS_ARRAY_OF (Zend_type Ptr_null (ZEND_TYPE_CODE_MASK h code)) \<longrightarrow>
        map_sum id stored_depth
          (zend_compile_type_internal h
             (ZEND_AST_TYPE_ARRAY_OF (ZEND_AST_TYPE_ARRAY_OF (ZEND_AST_TYPE_ARRAY_OF (ZEND_AST_TYPE code)))) p)
        = Inr (Some 3))
   \<and> (MAY_BE_ARRAY h AND ZEND_TYPE_ARRAY_OF_BIT = 0 \<longrightarrow>
        zend_compile_type_internal h (ZEND_AST_TYPE_ARRAY_OF (ZEND_AST_TYPE_ARRAY_SHAPE elems)) p = Inr t' \<longrightarrow>
        stored_depth t' = Some 1)"
proof (intro conjI impI)
  assume "zend_compile_type_internal h (ZEND_AST_TYPE_ARRAY_OF e) p = Inr t"
  then have "zend_compile_array_of_type h e = Inr t" by simp
  from compile_array_of_cases [OF this]
  show "\<exists>et d. t = ZEND_TYPE_SET_ARRAY_OF_PTR h ZEND_TYPE_INIT_NONE (Zend_array_of et d)
         \<and> stored_depth t = Some d
         \<and> zend_compile_type_internal h e True = Inr et
         \<and> (\<not> ZEND_TYPE_IS_ARRAY_OF et \<longrightarrow> d = 1)
         \<and> (ZEND_TYPE_IS_ARRAY_OF et \<longrightarrow>
              (\<exists>inner. ZEND_TYPE_ARRAY_OF_PTR et = Some inner \<and> d = depth inner + 1
                 \<and> unat d = (1 + unat (depth inner)) mod 256))"
    by (auto simp: stored_depth_def array_of_ptr_set_array_of unat_word_ariths)
next
  assume "\<not> ZEND_TYPE_IS_ARRAY_OF (Zend_type Ptr_null (ZEND_TYPE_CODE_MASK h code))"
  then show "map_sum id stored_depth
          (zend_compile_type_internal h
             (ZEND_AST_TYPE_ARRAY_OF (ZEND_AST_TYPE_ARRAY_OF (ZEND_AST_TYPE_ARRAY_OF (ZEND_AST_TYPE code)))) p)
        = Inr (Some 3)"
    by (simp add: is_array_of_set_array_of array_of_ptr_set_array_of stored_depth_def)
next
  assume h: "MAY_BE_ARRAY h AND ZEND_TYPE_ARRAY_OF_BIT = 0"
    and c: "zend_compile_type_internal h (ZEND_AST_TYPE_ARRAY_OF (ZEND_AST_TYPE_ARRAY_SHAPE elems)) p = Inr t'"
  show "stored_depth t' = Some 1"
    using c shape_not_array_of [OF h]
    by (auto simp: stored_depth_def array_of_ptr_set_array_of split: sum.splits)
qed

theorem array_of_depth_rule_witness:
  "(\<exists>et d. zend_compile_type_internal example_host
        (ZEND_AST_TYPE_ARRAY_OF (ZEND_AST_TYPE_ARRAY_OF (ZEND_AST_TYPE 4))) True
      = Inr (ZEND_TYPE_SET_ARRAY_OF_PTR example_host ZEND_TYPE_INIT_NONE (Zend_array_of et d))
      \<and> ZEND_TYPE_IS_ARRAY_OF et \<and> d = 2)
   \<and> map_sum id stored_depth
          (zend_compile_type_internal example_host
             (ZEND_AST_TYPE_ARRAY_OF (ZEND_AST_TYPE_ARRAY_OF (ZEND_AST_TYPE_ARRAY_OF (ZEND_AST_TYPE 4)))) True)
        = Inr (Some 3)
   \<and> map_sum id stored_depth
        (zend_compile_type_internal example_host
          (ZEND_AST_TYPE_ARRAY_OF (ZEND_AST_TYPE_ARRAY_SHAPE
             [ZEND_AST_SHAPE_ELEMENT (IS_STRING ''id'') 0 (ZEND_AST_TYPE 4)])) True) = Inr (Some 1)"
  using array_of_depth_rule [of example_host "ZEND_AST_TYPE_ARRAY_OF (ZEND_AST_TYPE 4)" True
      "ZEND_TYPE_SET_ARRAY_OF_PTR example_host ZEND_TYPE_INIT_NONE
         (Zend_array_of (ZEND_TYPE_SET_ARRAY_OF_PTR example_host ZEND_TYPE_INIT_NONE
            (Zend_array_of (Zend_type Ptr_null 16) 1)) 2)" 4
      "[ZEND_AST_SHAPE_ELEMENT (IS_STRING ''id'') 0 (ZEND_AST_TYPE 4)]"
      "ZEND_TYPE_SET_ARRAY_OF_PTR example_host ZEND_TYPE_INIT_NONE
         (Zend_array_of (ZEND_TYPE_SET_ARRAY_SHAPE_PTR example_host ZEND_TYPE_INIT_NONE
            (Zend_array_shape (zend_compute_shape_hash example_host
                [Zend_shape_element (Some ''id'') 0 1 0 (Zend_type Ptr_null 16)])
                [Zend_shape_element (Some ''id'') 0 1 0 (Zend_type Ptr_null 16)])) 1)"]
  by (simp add: example_host_def ZEND_TYPE_IS_ARRAY_OF_def ZEND_TYPE_ARRAY_OF_BIT_def
      ZEND_TYPE_ARRAY_SHAPE_BIT_def
      ZEND_TYPE_SET_ARRAY_OF_PTR_def ZEND_TYPE_SET_ARRAY_SHAPE_PTR_def ZEND_TYPE_INIT_NONE_def
      ZEND_TYPE_ARRAY_OF_PTR_def stored_depth_def)

text \<open>
  The claim as first worded, with the depth being one more than the element's depth as
  a number, fails at 256 wrappers: the 255-fold array-of type is an array-of with stored
  depth 255, and the array-of type whose element it is stores depth 0, not 256.
\<close>

lemma depth_chain_pos:
  assumes "zend_compile_type_internal h base True = Inr bt" and "\<not> ZEND_TYPE_IS_ARRAY_OF bt"
    and "0 < n"
  shows "\<exists>et. zend_compile_type_internal h ((ZEND_AST_TYPE_ARRAY_OF ^^ n) base) p =
           Inr (ZEND_TYPE_SET_ARRAY_OF_PTR h ZEND_TYPE_INIT_NONE (Zend_array_of et (of_nat n)))"
proof -
  from \<open>0 < n\<close> obtain m where n: "n = Suc m" by (cases n) auto
  show ?thesis unfolding n by (rule depth_chain [OF assms(1,2)])
qed

theorem array_of_depth_counterexample:
  "map_sum id ZEND_TYPE_IS_ARRAY_OF
     (zend_compile_type_internal example_host
        ((ZEND_AST_TYPE_ARRAY_OF ^^ 255) (ZEND_AST_TYPE 4)) True) = Inr True
   \<and> map_sum id (map_option unat \<circ> stored_depth)
       (zend_compile_type_internal example_host
          ((ZEND_AST_TYPE_ARRAY_OF ^^ 255) (ZEND_AST_TYPE 4)) True) = Inr (Some 255)
   \<and> map_sum id (map_option unat \<circ> stored_depth)
       (zend_compile_type_internal example_host
          (ZEND_AST_TYPE_ARRAY_OF ((ZEND_AST_TYPE_ARRAY_OF ^^ 255) (ZEND_AST_TYPE 4))) True)
      = Inr (Some 0)"
proof -
  have a: "zend_compile_type_internal example_host (ZEND_AST_TYPE 4) True = Inr (Zend_type Ptr_null 16)"
    by (simp add: example_host_def)
  have b: "\<not> ZEND_TYPE_IS_ARRAY_OF (Zend_type Ptr_null 16)"
    by (simp add: ZEND_TYPE_IS_ARRAY_OF_def ZEND_TYPE_ARRAY_OF_BIT_def)
  have c: "(0::nat) < 255" by simp
  have w: "(256 :: uint8_t) = 0"
    using word_of_nat_eq_0_iff [where 'a=8, of 256] by simp
  from depth_chain_pos [OF a b c, of True] obtain et where
    x: "zend_compile_type_internal example_host
          ((ZEND_AST_TYPE_ARRAY_OF ^^ 255) (ZEND_AST_TYPE 4)) True =
        Inr (ZEND_TYPE_SET_ARRAY_OF_PTR example_host ZEND_TYPE_INIT_NONE (Zend_array_of et (of_nat 255)))"
    by blast
  have "zend_compile_type_internal example_host
          (ZEND_AST_TYPE_ARRAY_OF ((ZEND_AST_TYPE_ARRAY_OF ^^ 255) (ZEND_AST_TYPE 4))) True =
        zend_compile_array_of_type example_host ((ZEND_AST_TYPE_ARRAY_OF ^^ 255) (ZEND_AST_TYPE 4))"
    by (simp only: zend_compile_type_internal.simps)
  also have "\<dots> = Inr (ZEND_TYPE_SET_ARRAY_OF_PTR example_host ZEND_TYPE_INIT_NONE
      (Zend_array_of (ZEND_TYPE_SET_ARRAY_OF_PTR example_host ZEND_TYPE_INIT_NONE
          (Zend_array_of et (of_nat 255))) 0))"
    by (simp only: zend_compile_array_of_type.simps x)
      (simp add: is_array_of_set_array_of array_of_ptr_set_array_of w)
  finally have y: "zend_compile_type_internal example_host
          (ZEND_AST_TYPE_ARRAY_OF ((ZEND_AST_TYPE_ARRAY_OF ^^ 255) (ZEND_AST_TYPE 4))) True =
        Inr (ZEND_TYPE_SET_ARRAY_OF_PTR example_host ZEND_TYPE_INIT_NONE
      (Zend_array_of (ZEND_TYPE_SET_ARRAY_OF_PTR example_host ZEND_TYPE_INIT_NONE
          (Zend_array_of et (of_nat 255))) 0))" .
  show ?thesis
    by (simp only: x y)
      (simp add: is_array_of_set_array_of array_of_ptr_set_array_of stored_depth_def)
qed

text \<open>
  Claim C10. The depth is an 8-bit field computed as the inner depth plus 1: for a chain
  of \<open>n \<ge> 1\<close> array-of wrappers around a type that is not an array-of, the stored depth,
  and the value \<open>ReflectionArrayOfType::getDepth\<close> returns, is \<open>n mod 256\<close>.
\<close>

theorem depth_wraps_modulo_256:
  assumes "zend_compile_type_internal h base True = Inr bt" and "\<not> ZEND_TYPE_IS_ARRAY_OF bt"
    and "0 < n"
  shows "\<exists>t ao. zend_compile_type_internal h ((ZEND_AST_TYPE_ARRAY_OF ^^ n) base) p = Inr t
      \<and> ZEND_TYPE_IS_ARRAY_OF t \<and> ZEND_TYPE_ARRAY_OF_PTR t = Some ao
      \<and> unat (depth ao) = n mod 256
      \<and> unat (ReflectionArrayOfType_getDepth (ZEND_TYPE_ARRAY_OF_PTR t)) = n mod 256"
proof -
  from \<open>0 < n\<close> obtain m where n: "n = Suc m" by (cases n) auto
  from depth_chain [OF assms(1,2), of m p] obtain et where
    "zend_compile_type_internal h ((ZEND_AST_TYPE_ARRAY_OF ^^ n) base) p =
       Inr (ZEND_TYPE_SET_ARRAY_OF_PTR h ZEND_TYPE_INIT_NONE (Zend_array_of et (of_nat n)))"
    unfolding n by blast
  moreover have "unat (of_nat n :: uint8_t) = n mod 256"
    by (simp add: unat_of_nat)
  moreover have "unat (ucast (of_nat n :: uint8_t) :: zend_long) = n mod 256"
    by (simp add: unsigned_ucast_eq unat_of_nat take_bit_eq_mod)
  ultimately show ?thesis
    by (auto simp: is_array_of_set_array_of array_of_ptr_set_array_of
        ReflectionArrayOfType_getDepth_def simp del: funpow.simps)
qed

theorem depth_wraps_modulo_256_witness:
  "\<exists>t ao. zend_compile_type_internal example_host
       ((ZEND_AST_TYPE_ARRAY_OF ^^ 256) (ZEND_AST_TYPE 4)) True = Inr t
      \<and> ZEND_TYPE_ARRAY_OF_PTR t = Some ao
      \<and> unat (depth ao) = 0
      \<and> unat (ReflectionArrayOfType_getDepth (ZEND_TYPE_ARRAY_OF_PTR t)) = 0"
proof -
  have a: "zend_compile_type_internal example_host (ZEND_AST_TYPE 4) True = Inr (Zend_type Ptr_null 16)"
    by (simp add: example_host_def)
  have b: "\<not> ZEND_TYPE_IS_ARRAY_OF (Zend_type Ptr_null 16)"
    by (simp add: ZEND_TYPE_IS_ARRAY_OF_def ZEND_TYPE_ARRAY_OF_BIT_def)
  have c: "(0::nat) < 256" by simp
  from depth_wraps_modulo_256 [OF a b c, of True] show ?thesis
    by (auto simp del: funpow.simps)
qed

section \<open>Properties of the validator\<close>

subsection \<open>The shape loop, one declared element at a time\<close>

lemma shape_for_Nil: "shape_for h [] ht = (True, shape_out_init)"
  by (simp add: shape_for.simps)

lemma value_matches_array_of:
  "ZEND_TYPE_IS_ARRAY_OF t \<Longrightarrow> value_matches h t val \<Longrightarrow>
   \<exists>a inner. Z_ARRVAL val = Some a \<and> ZEND_TYPE_ARRAY_OF_PTR t = Some inner
      \<and> fst (zend_validate_array_of h inner a)"
  by (auto simp: value_matches_def split: option.splits)

lemma value_matches_shape:
  "\<not> ZEND_TYPE_IS_ARRAY_OF t \<Longrightarrow> ZEND_TYPE_IS_ARRAY_SHAPE t \<Longrightarrow> value_matches h t val \<Longrightarrow>
   \<exists>a inner. Z_ARRVAL val = Some a \<and> ZEND_TYPE_ARRAY_SHAPE_PTR t = Some inner
      \<and> fst (zend_validate_array_shape h inner a)"
  by (auto simp: value_matches_def split: option.splits)

lemma value_matches_plain:
  "\<not> ZEND_TYPE_IS_ARRAY_OF t \<Longrightarrow> \<not> ZEND_TYPE_IS_ARRAY_SHAPE t \<Longrightarrow>
   value_matches h t val = zend_check_type_extended h t val"
  by (simp add: value_matches_def)

lemma shape_for_present:
  assumes "shape_lookup e ht = Some val"
  shows "(value_matches h (elem_type e) val \<longrightarrow> shape_for h (e # rest) ht = shape_for h rest ht)
    \<and> (\<not> value_matches h (elem_type e) val \<longrightarrow>
         shape_for h (e # rest) ht = shape_for h [e] ht \<and> \<not> fst (shape_for h [e] ht))"
proof (cases "ZEND_TYPE_IS_ARRAY_OF (elem_type e)")
  case True
  show ?thesis
  proof (cases "Z_ARRVAL val")
    case None
    then show ?thesis using assms True
      by (simp add: shape_for.simps(2) value_matches_def)
  next
    case (Some a)
    show ?thesis
    proof (cases "ZEND_TYPE_ARRAY_OF_PTR (elem_type e)")
      case None
      then show ?thesis using assms True Some
        by (simp add: shape_for.simps(2) value_matches_def)
    next
      case (Some inner)
      then show ?thesis using assms True \<open>Z_ARRVAL val = Some a\<close>
        by (simp add: shape_for.simps(2) value_matches_def Let_def)
    qed
  qed
next
  case False
  show ?thesis
  proof (cases "ZEND_TYPE_IS_ARRAY_SHAPE (elem_type e)")
    case True
    show ?thesis
    proof (cases "Z_ARRVAL val")
      case None
      then show ?thesis using assms True False
        by (simp add: shape_for.simps(2) value_matches_def)
    next
      case (Some a)
      show ?thesis
      proof (cases "ZEND_TYPE_ARRAY_SHAPE_PTR (elem_type e)")
        case None
        then show ?thesis using assms True False Some
          by (simp add: shape_for.simps(2) value_matches_def)
      next
        case (Some inner)
        then show ?thesis using assms True False \<open>Z_ARRVAL val = Some a\<close>
          by (simp add: shape_for.simps(2) value_matches_def Let_def)
      qed
    qed
  next
    case nshape: False
    then show ?thesis using assms False
      by (simp add: shape_for.simps(2) value_matches_def)
  qed
qed

lemma shape_for_absent:
  assumes "shape_lookup e ht = None"
  shows "shape_for h (e # rest) ht =
    (if is_optional e \<noteq> 0 then shape_for h rest ht else (False, shape_missing e))"
  using assms by (simp add: shape_for.simps(2))

lemma shape_for_ok:
  assumes "element_ok h e ht"
  shows "shape_for h (e # rest) ht = shape_for h rest ht"
proof (cases "shape_lookup e ht")
  case None
  then show ?thesis using assms by (simp add: element_ok_def shape_for_absent)
next
  case (Some val)
  then have "value_matches h (elem_type e) val" using assms by (simp add: element_ok_def)
  then show ?thesis using shape_for_present [OF Some, of h rest] by blast
qed

lemma shape_for_not_ok:
  assumes "\<not> element_ok h e ht"
  shows "shape_for h (e # rest) ht = shape_for h [e] ht \<and> \<not> fst (shape_for h [e] ht)"
proof (cases "shape_lookup e ht")
  case None
  then show ?thesis using assms by (simp add: element_ok_def shape_for_absent)
next
  case (Some val)
  then have "\<not> value_matches h (elem_type e) val" using assms by (simp add: element_ok_def)
  then show ?thesis using shape_for_present [OF Some, of h rest] by blast
qed


lemma shape_for_pass_iff:
  "fst (shape_for h es ht) \<longleftrightarrow> list_all (\<lambda>e. element_ok h e ht) es"
proof (induction es)
  case Nil
  show ?case by (simp add: shape_for_Nil)
next
  case (Cons e es)
  show ?case
  proof (cases "element_ok h e ht")
    case True
    then show ?thesis using Cons by (simp add: shape_for_ok)
  next
    case False
    then show ?thesis using shape_for_not_ok [OF False, of es] by simp
  qed
qed







subsection \<open>The array-of loop, one value at a time\<close>

lemma foreach_Nil: "array_of_foreach h ao [] = (True, None)"
  by (simp add: array_of_foreach.simps)

lemma validate_array_of_foreach:
  "zend_validate_array_of h ao ht = array_of_foreach h ao (map snd ht)"
  by (cases ht) (simp_all add: zend_validate_array_of.simps zend_hash_num_elements_def foreach_Nil)

lemma foreach_step:
  "(value_matches h (element_type ao) v \<longrightarrow>
      array_of_foreach h ao (v # rest) = array_of_foreach h ao rest)
   \<and> (\<not> value_matches h (element_type ao) v \<longrightarrow>
      array_of_foreach h ao (v # rest) = array_of_foreach h ao [v]
      \<and> \<not> fst (array_of_foreach h ao [v]))"
proof (cases "ZEND_TYPE_IS_ARRAY_OF (element_type ao)")
  case True
  show ?thesis
  proof (cases "Z_ARRVAL v")
    case None
    then show ?thesis using True
      by (simp add: array_of_foreach.simps(2) value_matches_def)
  next
    case (Some a)
    show ?thesis
    proof (cases "ZEND_TYPE_ARRAY_OF_PTR (element_type ao)")
      case None
      then show ?thesis using True Some
        by (simp add: array_of_foreach.simps(2) value_matches_def)
    next
      case (Some inner)
      then show ?thesis using True \<open>Z_ARRVAL v = Some a\<close>
        by (simp add: array_of_foreach.simps(2) value_matches_def Let_def)
    qed
  qed
next
  case False
  show ?thesis
  proof (cases "ZEND_TYPE_IS_ARRAY_SHAPE (element_type ao)")
    case True
    show ?thesis
    proof (cases "Z_ARRVAL v")
      case None
      then show ?thesis using True False
        by (simp add: array_of_foreach.simps(2) value_matches_def)
    next
      case (Some a)
      show ?thesis
      proof (cases "ZEND_TYPE_ARRAY_SHAPE_PTR (element_type ao)")
        case None
        then show ?thesis using True False Some
          by (simp add: array_of_foreach.simps(2) value_matches_def)
      next
        case (Some inner)
        then show ?thesis using True False \<open>Z_ARRVAL v = Some a\<close>
          by (simp add: array_of_foreach.simps(2) value_matches_def Let_def)
      qed
    qed
  next
    case nshape: False
    then show ?thesis using False
      by (simp add: array_of_foreach.simps(2) value_matches_def)
  qed
qed

lemma foreach_ok:
  "value_matches h (element_type ao) v \<Longrightarrow>
   array_of_foreach h ao (v # rest) = array_of_foreach h ao rest"
  using foreach_step [of h ao v rest] by blast

lemma foreach_not_ok:
  "\<not> value_matches h (element_type ao) v \<Longrightarrow>
   array_of_foreach h ao (v # rest) = array_of_foreach h ao [v] \<and> \<not> fst (array_of_foreach h ao [v])"
  using foreach_step [of h ao v rest] by blast

lemma foreach_pass_iff:
  "fst (array_of_foreach h ao vs) \<longleftrightarrow> list_all (value_matches h (element_type ao)) vs"
proof (induction vs)
  case Nil
  show ?case by (simp add: foreach_Nil)
next
  case (Cons v vs)
  show ?case
  proof (cases "value_matches h (element_type ao) v")
    case True
    then show ?thesis using Cons by (simp add: foreach_ok)
  next
    case False
    then show ?thesis using foreach_not_ok [OF False, of vs] by simp
  qed
qed

lemma foreach_skip_prefix:
  "list_all (value_matches h (element_type ao)) pre \<Longrightarrow>
   array_of_foreach h ao (pre @ vs) = array_of_foreach h ao vs"
  by (induction pre) (simp_all add: foreach_ok)


lemma foreach_first_failure:
  "\<not> fst (array_of_foreach h ao vs) \<Longrightarrow>
   \<exists>pre v post. vs = pre @ v # post \<and> list_all (value_matches h (element_type ao)) pre
      \<and> \<not> value_matches h (element_type ao) v"
proof (induction vs)
  case Nil
  then show ?case by (simp add: foreach_Nil)
next
  case (Cons a vs)
  show ?case
  proof (cases "value_matches h (element_type ao) a")
    case True
    with Cons.prems have "\<not> fst (array_of_foreach h ao vs)" by (simp add: foreach_ok)
    from Cons.IH [OF this] obtain pre v post where
      *: "vs = pre @ v # post" "list_all (value_matches h (element_type ao)) pre"
      "\<not> value_matches h (element_type ao) v"
      by blast
    have "a # vs = (a # pre) @ v # post \<and> list_all (value_matches h (element_type ao)) (a # pre)
      \<and> \<not> value_matches h (element_type ao) v"
      using * True by simp
    then show ?thesis by (intro exI)
  next
    case False
    have "a # vs = [] @ a # vs \<and> list_all (value_matches h (element_type ao)) []
      \<and> \<not> value_matches h (element_type ao) a"
      using False by simp
    then show ?thesis by (intro exI)
  qed
qed

lemma not_extended_iff:
  "\<not> ZEND_TYPE_HAS_EXTENDED_ARRAY t \<longleftrightarrow> \<not> ZEND_TYPE_IS_ARRAY_OF t \<and> \<not> ZEND_TYPE_IS_ARRAY_SHAPE t"
  by (simp add: ZEND_TYPE_HAS_EXTENDED_ARRAY_def ZEND_TYPE_EXTENDED_ARRAY_MASK_def
      ZEND_TYPE_IS_ARRAY_OF_def ZEND_TYPE_IS_ARRAY_SHAPE_def bit.conj_disj_distrib or_eq_0_iff)

lemma foreach_bad_element:
  assumes "\<not> value_matches h (element_type ao) v"
  shows "(\<not> ZEND_TYPE_HAS_EXTENDED_ARRAY (element_type ao) \<or> Z_ARRVAL v = None \<longrightarrow>
            snd (array_of_foreach h ao [v]) = Some v)
    \<and> (\<forall>a inner. ZEND_TYPE_IS_ARRAY_OF (element_type ao) \<and> Z_ARRVAL v = Some a
            \<and> ZEND_TYPE_ARRAY_OF_PTR (element_type ao) = Some inner \<longrightarrow>
            snd (array_of_foreach h ao [v]) = snd (zend_validate_array_of h inner a))
    \<and> (\<forall>a inner. \<not> ZEND_TYPE_IS_ARRAY_OF (element_type ao) \<and> ZEND_TYPE_IS_ARRAY_SHAPE (element_type ao)
            \<and> Z_ARRVAL v = Some a \<and> ZEND_TYPE_ARRAY_SHAPE_PTR (element_type ao) = Some inner \<longrightarrow>
            snd (array_of_foreach h ao [v]) =
              Some (case out_bad_value (snd (zend_validate_array_shape h inner a)) of
                      Some bad_val \<Rightarrow> bad_val | None \<Rightarrow> v))"
proof (cases "ZEND_TYPE_IS_ARRAY_OF (element_type ao)")
  case True
  show ?thesis
  proof (cases "Z_ARRVAL v")
    case None
    then show ?thesis using True
      by (simp add: array_of_foreach.simps(2) not_extended_iff)
  next
    case (Some a)
    show ?thesis
    proof (cases "ZEND_TYPE_ARRAY_OF_PTR (element_type ao)")
      case None
      then show ?thesis using True Some
        by (simp add: array_of_foreach.simps(2) not_extended_iff)
    next
      case (Some inner)
      then show ?thesis using True \<open>Z_ARRVAL v = Some a\<close> assms
        by (simp add: array_of_foreach.simps(2) value_matches_def Let_def not_extended_iff)
    qed
  qed
next
  case False
  show ?thesis
  proof (cases "ZEND_TYPE_IS_ARRAY_SHAPE (element_type ao)")
    case True
    show ?thesis
    proof (cases "Z_ARRVAL v")
      case None
      then show ?thesis using True False
        by (simp add: array_of_foreach.simps(2) not_extended_iff)
    next
      case (Some a)
      show ?thesis
      proof (cases "ZEND_TYPE_ARRAY_SHAPE_PTR (element_type ao)")
        case None
        then show ?thesis using True False Some
          by (simp add: array_of_foreach.simps(2) not_extended_iff)
      next
        case (Some inner)
        then show ?thesis using True False \<open>Z_ARRVAL v = Some a\<close> assms
          by (simp add: array_of_foreach.simps(2) value_matches_def Let_def not_extended_iff)
      qed
    qed
  next
    case nshape: False
    then show ?thesis using False assms
      by (simp add: array_of_foreach.simps(2) value_matches_def not_extended_iff)
  qed
qed

text \<open>The facts that evaluate the validator on concrete values.\<close>

lemmas validator_eval =
  zend_validate_array_of.simps array_of_foreach.simps zend_validate_array_shape.simps
  shape_for.simps zend_check_type_extended.simps check_builtin_def
  Z_ARRVAL_def Z_OBJCE_def ZVAL_DEREF_def shape_lookup_def
  zend_hash_find_def zend_hash_index_find_def zend_hash_num_elements_def
  ZEND_TYPE_IS_ARRAY_OF_def ZEND_TYPE_IS_ARRAY_SHAPE_def ZEND_TYPE_HAS_EXTENDED_ARRAY_def
  ZEND_TYPE_EXTENDED_ARRAY_MASK_def ZEND_TYPE_ARRAY_OF_BIT_def ZEND_TYPE_ARRAY_SHAPE_BIT_def
  ZEND_TYPE_ARRAY_OF_PTR_def ZEND_TYPE_ARRAY_SHAPE_PTR_def
  ZEND_TYPE_HAS_LIST_def ZEND_TYPE_LIST_def ZEND_TYPE_HAS_NAME_def ZEND_TYPE_NAME_def
  ZEND_TYPE_PURE_MASK_def shape_missing_def shape_bad_def shape_propagate_def shape_out_init_def
  example_host_def Let_def

lemma validate_array_of_first_failure:
  "\<not> fst (zend_validate_array_of h ao ht) \<Longrightarrow>
   \<exists>pre kv post. ht = pre @ kv # post
      \<and> list_all (\<lambda>kv. value_matches h (element_type ao) (snd kv)) pre
      \<and> \<not> value_matches h (element_type ao) (snd kv)"
proof (induction ht)
  case Nil
  then show ?case by (simp add: validate_array_of_foreach foreach_Nil)
next
  case (Cons a ht)
  show ?case
  proof (cases "value_matches h (element_type ao) (snd a)")
    case True
    with Cons.prems have "\<not> fst (zend_validate_array_of h ao ht)"
      by (simp add: validate_array_of_foreach foreach_ok)
    from Cons.IH [OF this] obtain pre kv post where
      *: "ht = pre @ kv # post" "list_all (\<lambda>kv. value_matches h (element_type ao) (snd kv)) pre"
      "\<not> value_matches h (element_type ao) (snd kv)"
      by blast
    have "a # ht = (a # pre) @ kv # post
      \<and> list_all (\<lambda>kv. value_matches h (element_type ao) (snd kv)) (a # pre)
      \<and> \<not> value_matches h (element_type ao) (snd kv)"
      using * True by simp
    then show ?thesis by (intro exI)
  next
    case False
    have "a # ht = [] @ a # ht
      \<and> list_all (\<lambda>kv. value_matches h (element_type ao) (snd kv)) []
      \<and> \<not> value_matches h (element_type ao) (snd a)"
      using False by simp
    then show ?thesis by (intro exI)
  qed
qed

lemma validate_array_of_at_failure:
  assumes "list_all (\<lambda>kv. value_matches h (element_type ao) (snd kv)) pre"
    and "\<not> value_matches h (element_type ao) (snd kv)"
  shows "zend_validate_array_of h ao (pre @ kv # post) = array_of_foreach h ao [snd kv]"
proof -
  have "list_all (value_matches h (element_type ao)) (map snd pre)"
    using assms(1) by (simp add: list_all_iff)
  then have "array_of_foreach h ao (map snd pre @ snd kv # map snd post) =
      array_of_foreach h ao (snd kv # map snd post)"
    by (rule foreach_skip_prefix)
  then show ?thesis
    using foreach_not_ok [OF assms(2), of "map snd post"]
    by (simp add: validate_array_of_foreach)
qed

text \<open>
  Claim C2. For every array-of descriptor and every array: the empty array passes; the
  values are visited in the table's order and each is matched against the element type
  by \<open>value_matches\<close> (the array-of matcher or the shape matcher when the element type has
  that tag, the scalar/class check otherwise); the result is Pass exactly when every
  value matches; on failure the result is that of the table cut after the first value
  that does not match, and the reported bad element is that value when the element type
  is a scalar or class type or the value is not an array, and the bad element reported
  by the nested matcher otherwise.
\<close>

theorem array_of_validation:
  "zend_validate_array_of h ao [] = (True, None)
   \<and> (fst (zend_validate_array_of h ao ht) \<longleftrightarrow>
        list_all (\<lambda>kv. value_matches h (element_type ao) (snd kv)) ht)
   \<and> (fst (zend_validate_array_of h ao ht) \<longrightarrow> snd (zend_validate_array_of h ao ht) = None)
   \<and> (\<not> fst (zend_validate_array_of h ao ht) \<longrightarrow>
        (\<exists>pre kv post. ht = pre @ kv # post
           \<and> list_all (\<lambda>kv. value_matches h (element_type ao) (snd kv)) pre
           \<and> \<not> value_matches h (element_type ao) (snd kv)
           \<and> zend_validate_array_of h ao ht = zend_validate_array_of h ao (pre @ [kv])
           \<and> (\<not> ZEND_TYPE_HAS_EXTENDED_ARRAY (element_type ao) \<or> Z_ARRVAL (snd kv) = None \<longrightarrow>
                snd (zend_validate_array_of h ao ht) = Some (snd kv))
           \<and> (\<forall>a inner. ZEND_TYPE_IS_ARRAY_OF (element_type ao) \<and> Z_ARRVAL (snd kv) = Some a
                \<and> ZEND_TYPE_ARRAY_OF_PTR (element_type ao) = Some inner \<longrightarrow>
                snd (zend_validate_array_of h ao ht) = snd (zend_validate_array_of h inner a))
           \<and> (\<forall>a inner. \<not> ZEND_TYPE_IS_ARRAY_OF (element_type ao)
                \<and> ZEND_TYPE_IS_ARRAY_SHAPE (element_type ao) \<and> Z_ARRVAL (snd kv) = Some a
                \<and> ZEND_TYPE_ARRAY_SHAPE_PTR (element_type ao) = Some inner \<longrightarrow>
                snd (zend_validate_array_of h ao ht) =
                  Some (case out_bad_value (snd (zend_validate_array_shape h inner a)) of
                          Some bad_val \<Rightarrow> bad_val | None \<Rightarrow> snd kv))))
   \<and> (value_matches h t val \<longleftrightarrow>
        (if ZEND_TYPE_IS_ARRAY_OF t
         then \<exists>a inner. Z_ARRVAL val = Some a \<and> ZEND_TYPE_ARRAY_OF_PTR t = Some inner
                \<and> fst (zend_validate_array_of h inner a)
         else if ZEND_TYPE_IS_ARRAY_SHAPE t
         then \<exists>a inner. Z_ARRVAL val = Some a \<and> ZEND_TYPE_ARRAY_SHAPE_PTR t = Some inner
                \<and> fst (zend_validate_array_shape h inner a)
         else zend_check_type_extended h t val))"
proof (intro conjI impI)
  show "zend_validate_array_of h ao [] = (True, None)"
    by (simp add: validate_array_of_foreach foreach_Nil)
  show iff: "fst (zend_validate_array_of h ao ht) \<longleftrightarrow>
        list_all (\<lambda>kv. value_matches h (element_type ao) (snd kv)) ht"
    by (simp add: validate_array_of_foreach foreach_pass_iff list_all_iff)
  show "value_matches h t val \<longleftrightarrow>
        (if ZEND_TYPE_IS_ARRAY_OF t
         then \<exists>a inner. Z_ARRVAL val = Some a \<and> ZEND_TYPE_ARRAY_OF_PTR t = Some inner
                \<and> fst (zend_validate_array_of h inner a)
         else if ZEND_TYPE_IS_ARRAY_SHAPE t
         then \<exists>a inner. Z_ARRVAL val = Some a \<and> ZEND_TYPE_ARRAY_SHAPE_PTR t = Some inner
                \<and> fst (zend_validate_array_shape h inner a)
         else zend_check_type_extended h t val)"
    by (auto simp: value_matches_def split: option.splits)
next
  assume "fst (zend_validate_array_of h ao ht)"
  then show "snd (zend_validate_array_of h ao ht) = None"
  proof (induction ht)
    case Nil
    show ?case by (simp add: validate_array_of_foreach foreach_Nil)
  next
    case (Cons a ht)
    show ?case
    proof (cases "value_matches h (element_type ao) (snd a)")
      case True
      then show ?thesis using Cons by (simp add: validate_array_of_foreach foreach_ok)
    next
      case False
      then show ?thesis using Cons.prems foreach_not_ok [OF False, of "map snd ht"]
        by (simp add: validate_array_of_foreach)
    qed
  qed
next
  assume "\<not> fst (zend_validate_array_of h ao ht)"
  from validate_array_of_first_failure [OF this] obtain pre kv post where
    *: "ht = pre @ kv # post" "list_all (\<lambda>kv. value_matches h (element_type ao) (snd kv)) pre"
    "\<not> value_matches h (element_type ao) (snd kv)"
    by blast
  have r: "zend_validate_array_of h ao ht = array_of_foreach h ao [snd kv]"
    unfolding *(1) using *(2,3) by (rule validate_array_of_at_failure)
  have r': "zend_validate_array_of h ao (pre @ [kv]) = array_of_foreach h ao [snd kv]"
    using *(2,3) by (rule validate_array_of_at_failure)
  note bad = foreach_bad_element [OF *(3)]
  have "ht = pre @ kv # post
           \<and> list_all (\<lambda>kv. value_matches h (element_type ao) (snd kv)) pre
           \<and> \<not> value_matches h (element_type ao) (snd kv)
           \<and> zend_validate_array_of h ao ht = zend_validate_array_of h ao (pre @ [kv])
           \<and> (\<not> ZEND_TYPE_HAS_EXTENDED_ARRAY (element_type ao) \<or> Z_ARRVAL (snd kv) = None \<longrightarrow>
                snd (zend_validate_array_of h ao ht) = Some (snd kv))
           \<and> (\<forall>a inner. ZEND_TYPE_IS_ARRAY_OF (element_type ao) \<and> Z_ARRVAL (snd kv) = Some a
                \<and> ZEND_TYPE_ARRAY_OF_PTR (element_type ao) = Some inner \<longrightarrow>
                snd (zend_validate_array_of h ao ht) = snd (zend_validate_array_of h inner a))
           \<and> (\<forall>a inner. \<not> ZEND_TYPE_IS_ARRAY_OF (element_type ao)
                \<and> ZEND_TYPE_IS_ARRAY_SHAPE (element_type ao) \<and> Z_ARRVAL (snd kv) = Some a
                \<and> ZEND_TYPE_ARRAY_SHAPE_PTR (element_type ao) = Some inner \<longrightarrow>
                snd (zend_validate_array_of h ao ht) =
                  Some (case out_bad_value (snd (zend_validate_array_shape h inner a)) of
                          Some bad_val \<Rightarrow> bad_val | None \<Rightarrow> snd kv))"
    unfolding r r' using * bad by simp
  then show "\<exists>pre kv post. ht = pre @ kv # post
           \<and> list_all (\<lambda>kv. value_matches h (element_type ao) (snd kv)) pre
           \<and> \<not> value_matches h (element_type ao) (snd kv)
           \<and> zend_validate_array_of h ao ht = zend_validate_array_of h ao (pre @ [kv])
           \<and> (\<not> ZEND_TYPE_HAS_EXTENDED_ARRAY (element_type ao) \<or> Z_ARRVAL (snd kv) = None \<longrightarrow>
                snd (zend_validate_array_of h ao ht) = Some (snd kv))
           \<and> (\<forall>a inner. ZEND_TYPE_IS_ARRAY_OF (element_type ao) \<and> Z_ARRVAL (snd kv) = Some a
                \<and> ZEND_TYPE_ARRAY_OF_PTR (element_type ao) = Some inner \<longrightarrow>
                snd (zend_validate_array_of h ao ht) = snd (zend_validate_array_of h inner a))
           \<and> (\<forall>a inner. \<not> ZEND_TYPE_IS_ARRAY_OF (element_type ao)
                \<and> ZEND_TYPE_IS_ARRAY_SHAPE (element_type ao) \<and> Z_ARRVAL (snd kv) = Some a
                \<and> ZEND_TYPE_ARRAY_SHAPE_PTR (element_type ao) = Some inner \<longrightarrow>
                snd (zend_validate_array_of h ao ht) =
                  Some (case out_bad_value (snd (zend_validate_array_shape h inner a)) of
                          Some bad_val \<Rightarrow> bad_val | None \<Rightarrow> snd kv))"
    by (intro exI)
qed

lemma eval_array_of_int_fail:
  "zend_validate_array_of example_host (Zend_array_of (Zend_type Ptr_null 16) 1)
     [(Num_key 0, IS_LONG 1), (Num_key 1, IS_STRING ''x''), (Num_key 2, IS_LONG 3)]
   = (False, Some (IS_STRING ''x''))"
  by (simp add: validator_eval)

theorem array_of_validation_witness:
  "\<not> fst (zend_validate_array_of example_host (Zend_array_of (Zend_type Ptr_null 16) 1)
       [(Num_key 0, IS_LONG 1), (Num_key 1, IS_STRING ''x''), (Num_key 2, IS_LONG 3)])
   \<and> (\<exists>pre kv post.
        [(Num_key 0, IS_LONG 1), (Num_key 1, IS_STRING ''x''), (Num_key 2, IS_LONG 3)] = pre @ kv # post
        \<and> list_all (\<lambda>kv. value_matches example_host
              (element_type (Zend_array_of (Zend_type Ptr_null 16) 1)) (snd kv)) pre
        \<and> \<not> value_matches example_host
              (element_type (Zend_array_of (Zend_type Ptr_null 16) 1)) (snd kv)
        \<and> snd (zend_validate_array_of example_host (Zend_array_of (Zend_type Ptr_null 16) 1)
             [(Num_key 0, IS_LONG 1), (Num_key 1, IS_STRING ''x''), (Num_key 2, IS_LONG 3)]) = Some (snd kv))
   \<and> snd (zend_validate_array_of example_host (Zend_array_of (Zend_type Ptr_null 16) 1)
        [(Num_key 0, IS_LONG 1), (Num_key 1, IS_STRING ''x''), (Num_key 2, IS_LONG 3)])
      = Some (IS_STRING ''x'')"
proof -
  let ?ao = "Zend_array_of (Zend_type Ptr_null 16) 1"
  let ?ht = "[(Num_key 0, IS_LONG 1), (Num_key 1, IS_STRING ''x''), (Num_key 2, IS_LONG 3)]"
  have f: "\<not> fst (zend_validate_array_of example_host ?ao ?ht)"
    by (simp add: eval_array_of_int_fail)
  have e: "\<not> ZEND_TYPE_HAS_EXTENDED_ARRAY (element_type ?ao)"
    by (simp add: validator_eval)
  let ?B = "\<lambda>pre kv post. ?ht = pre @ kv # post
           \<and> list_all (\<lambda>kv. value_matches example_host (element_type ?ao) (snd kv)) pre
           \<and> \<not> value_matches example_host (element_type ?ao) (snd kv)
           \<and> zend_validate_array_of example_host ?ao ?ht =
               zend_validate_array_of example_host ?ao (pre @ [kv])
           \<and> (\<not> ZEND_TYPE_HAS_EXTENDED_ARRAY (element_type ?ao) \<or> Z_ARRVAL (snd kv) = None \<longrightarrow>
                snd (zend_validate_array_of example_host ?ao ?ht) = Some (snd kv))
           \<and> (\<forall>a inner. ZEND_TYPE_IS_ARRAY_OF (element_type ?ao) \<and> Z_ARRVAL (snd kv) = Some a
                \<and> ZEND_TYPE_ARRAY_OF_PTR (element_type ?ao) = Some inner \<longrightarrow>
                snd (zend_validate_array_of example_host ?ao ?ht) =
                  snd (zend_validate_array_of example_host inner a))
           \<and> (\<forall>a inner. \<not> ZEND_TYPE_IS_ARRAY_OF (element_type ?ao)
                \<and> ZEND_TYPE_IS_ARRAY_SHAPE (element_type ?ao) \<and> Z_ARRVAL (snd kv) = Some a
                \<and> ZEND_TYPE_ARRAY_SHAPE_PTR (element_type ?ao) = Some inner \<longrightarrow>
                snd (zend_validate_array_of example_host ?ao ?ht) =
                  Some (case out_bad_value (snd (zend_validate_array_shape example_host inner a)) of
                          Some bad_val \<Rightarrow> bad_val | None \<Rightarrow> snd kv))"
  have "\<exists>pre kv post. ?B pre kv post"
    by (rule array_of_validation [of example_host ?ao ?ht, THEN conjunct2, THEN conjunct2,
      THEN conjunct2, THEN conjunct1, rule_format, OF f])
  then obtain pre where "\<exists>kv post. ?B pre kv post" ..
  then obtain kv where "\<exists>post. ?B pre kv post" ..
  then obtain post where b: "?B pre kv post" ..
  note c1 = b [THEN conjunct1]
  note c2 = b [THEN conjunct2, THEN conjunct1]
  note c3 = b [THEN conjunct2, THEN conjunct2, THEN conjunct1]
  note c5 = b [THEN conjunct2, THEN conjunct2, THEN conjunct2, THEN conjunct2, THEN conjunct1]
  have c5': "snd (zend_validate_array_of example_host ?ao ?ht) = Some (snd kv)"
    using c5 e by blast
  have "?ht = pre @ kv # post
        \<and> list_all (\<lambda>kv. value_matches example_host (element_type ?ao) (snd kv)) pre
        \<and> \<not> value_matches example_host (element_type ?ao) (snd kv)
        \<and> snd (zend_validate_array_of example_host ?ao ?ht) = Some (snd kv)"
    by (rule conjI [OF c1 conjI [OF c2 conjI [OF c3 c5']]])
  then have "\<exists>pre kv post. ?ht = pre @ kv # post
        \<and> list_all (\<lambda>kv. value_matches example_host (element_type ?ao) (snd kv)) pre
        \<and> \<not> value_matches example_host (element_type ?ao) (snd kv)
        \<and> snd (zend_validate_array_of example_host ?ao ?ht) = Some (snd kv)"
    by (intro exI)
  moreover have "snd (zend_validate_array_of example_host ?ao ?ht) = Some (IS_STRING ''x'')"
    by (simp add: eval_array_of_int_fail)
  ultimately show ?thesis using f by (intro conjI)
qed

lemma validate_array_shape_for:
  "zend_validate_array_shape h shape ht = shape_for h (elements shape) ht"
  by (simp add: zend_validate_array_shape.simps)



lemma eval_shape_missing_name:
  "zend_validate_array_shape example_host
     (Zend_array_shape 0
        [Zend_shape_element (Some ''id'') 0 1 0 (Zend_type Ptr_null 16),
         Zend_shape_element (Some ''name'') 0 1 0 (Zend_type Ptr_null 64)])
     [(Str_key ''id'', IS_LONG 1)]
   = (False, \<lparr> out_missing_key = Some ''name'', out_missing_key_num = 0, out_is_string_key = True,
        out_bad_value = None,
        out_failed_element = Some (Zend_shape_element (Some ''name'') 0 1 0 (Zend_type Ptr_null 64)) \<rparr>)"
  by (simp add: validator_eval)



subsection \<open>Duplicate keys\<close>

lemma compile_shape_elements_keys:
  "compile_shape_elements h asts = Inr elems \<Longrightarrow>
   length elems = length asts
   \<and> map (\<lambda>e. if is_string_key e \<noteq> 0 then map_option IS_STRING (key e)
                else Some (IS_LONG (key_num e))) elems = map (\<lambda>a. Some (key_ast a)) asts
   \<and> map is_optional elems = map (\<lambda>a. if attr a AND 1 \<noteq> 0 then 1 else 0) asts
   \<and> map (\<lambda>e. Inr (elem_type e)) elems = map (\<lambda>a. zend_compile_type_internal h (type_ast a) True) asts"
proof (induction asts arbitrary: elems)
  case Nil
  then show ?case by simp
next
  case (Cons a asts)
  obtain kz fl ta where a: "a = ZEND_AST_SHAPE_ELEMENT kz fl ta" by (cases a)
  from Cons.prems obtain k kn sk t rest where
    k: "(case kz of IS_STRING s \<Rightarrow> Inr (Some s, 0, 1) | IS_LONG n \<Rightarrow> Inr (None, n, 0)
          | _ \<Rightarrow> Inl (E_COMPILE_ERROR ''Shape key must be a string or integer'')) = Inr (k, kn, sk)"
    and t: "zend_compile_type_internal h ta True = Inr t"
    and r: "compile_shape_elements h asts = Inr rest"
    and e: "elems = Zend_shape_element k kn sk (if fl AND 1 \<noteq> 0 then 1 else 0) t # rest"
    unfolding a by (auto split: sum.splits prod.splits)
  from k have kk: "(if sk \<noteq> 0 then map_option IS_STRING k else Some (IS_LONG kn)) = Some kz"
    by (cases kz) auto
  show ?case using Cons.IH [OF r] kk t unfolding e a by (auto split: if_splits)
qed

lemma compile_shape_elements_succeeds:
  "(\<exists>elems. compile_shape_elements h asts = Inr elems) \<longleftrightarrow>
     list_all (\<lambda>a. ((\<exists>s. key_ast a = IS_STRING s) \<or> (\<exists>n. key_ast a = IS_LONG n))
                  \<and> (\<exists>t. zend_compile_type_internal h (type_ast a) True = Inr t)) asts"
proof (induction asts)
  case Nil
  show ?case by simp
next
  case (Cons a asts)
  obtain kz fl ta where a: "a = ZEND_AST_SHAPE_ELEMENT kz fl ta" by (cases a)
  show ?case
  proof (cases "zend_compile_type_internal h ta True")
    case (Inl e)
    then show ?thesis unfolding a by (cases kz) simp_all
  next
    case t: (Inr t)
    show ?thesis
    proof (cases "compile_shape_elements h asts")
      case (Inl e)
      then show ?thesis using Cons.IH t unfolding a by (cases kz) simp_all
    next
      case (Inr rest)
      then show ?thesis using Cons.IH t unfolding a by (cases kz) simp_all
    qed
  qed
qed

text \<open>
  Claim C9. The shape compiler rejects no duplicate key: a shape compiles exactly when
  every element's key literal is a string or an integer and every element's type
  compiles, whatever keys the other elements have; every element node becomes a shape
  element of its own, in order, with the node's key and compiled type. The validator
  looks every occurrence up and checks it on its own: a passing array satisfies the type
  of every declared element whose key it holds, and for a shape that declares one key
  twice the array passes exactly when the entry's value matches both types, not only the
  last one.
\<close>

theorem duplicate_keys_each_checked:
  "((\<exists>t. zend_compile_array_shape_type h asts = Inr t) \<longleftrightarrow>
      list_all (\<lambda>a. ((\<exists>s. key_ast a = IS_STRING s) \<or> (\<exists>n. key_ast a = IS_LONG n))
                   \<and> (\<exists>t. zend_compile_type_internal h (type_ast a) True = Inr t)) asts)
   \<and> (zend_compile_array_shape_type h asts = Inr t \<longrightarrow>
      (\<exists>shape. ZEND_TYPE_ARRAY_SHAPE_PTR t = Some shape \<and> ZEND_TYPE_IS_ARRAY_SHAPE t
         \<and> length (elements shape) = length asts
         \<and> map (\<lambda>e. if is_string_key e \<noteq> 0 then map_option IS_STRING (key e)
                      else Some (IS_LONG (key_num e))) (elements shape)
             = map (\<lambda>a. Some (key_ast a)) asts
         \<and> map (\<lambda>e. Inr (elem_type e)) (elements shape)
             = map (\<lambda>a. zend_compile_type_internal h (type_ast a) True) asts))
   \<and> (fst (zend_validate_array_shape h shape ht) \<longrightarrow>
        (\<forall>e \<in> set (elements shape). \<forall>val. shape_lookup e ht = Some val \<longrightarrow>
           value_matches h (elem_type e) val))
   \<and> (shape_lookup e1 ht = Some val \<and> shape_lookup e2 ht = Some val \<longrightarrow>
        (fst (zend_validate_array_shape h (Zend_array_shape hash [e1, e2]) ht) \<longleftrightarrow>
           value_matches h (elem_type e1) val \<and> value_matches h (elem_type e2) val))"
proof (intro conjI impI)
  have "(\<exists>t. zend_compile_array_shape_type h asts = Inr t) \<longleftrightarrow>
      (\<exists>elems. compile_shape_elements h asts = Inr elems)"
    by (cases "compile_shape_elements h asts") simp_all
  then show "(\<exists>t. zend_compile_array_shape_type h asts = Inr t) \<longleftrightarrow>
      list_all (\<lambda>a. ((\<exists>s. key_ast a = IS_STRING s) \<or> (\<exists>n. key_ast a = IS_LONG n))
                   \<and> (\<exists>t. zend_compile_type_internal h (type_ast a) True = Inr t)) asts"
    by (simp only: compile_shape_elements_succeeds)
next
  assume c: "zend_compile_array_shape_type h asts = Inr t"
  then obtain elems where e: "compile_shape_elements h asts = Inr elems"
    and t: "t = ZEND_TYPE_SET_ARRAY_SHAPE_PTR h ZEND_TYPE_INIT_NONE
                 (Zend_array_shape (zend_compute_shape_hash h elems) elems)"
    by (auto split: sum.splits)
  have is_shape: "ZEND_TYPE_IS_ARRAY_SHAPE t"
    unfolding t ZEND_TYPE_IS_ARRAY_SHAPE_def ZEND_TYPE_SET_ARRAY_SHAPE_PTR_def ZEND_TYPE_ARRAY_SHAPE_BIT_def
    apply simp
    apply (rule notI)
    apply (drule_tac f="\<lambda>w. bit w 25" in arg_cong)
    apply (simp add: bit_simps)
    done
  have p: "ZEND_TYPE_ARRAY_SHAPE_PTR t = Some (Zend_array_shape (zend_compute_shape_hash h elems) elems)"
    by (simp add: t ZEND_TYPE_ARRAY_SHAPE_PTR_def ZEND_TYPE_SET_ARRAY_SHAPE_PTR_def)
  from compile_shape_elements_keys [OF e] p is_shape
  show "\<exists>shape. ZEND_TYPE_ARRAY_SHAPE_PTR t = Some shape \<and> ZEND_TYPE_IS_ARRAY_SHAPE t
         \<and> length (elements shape) = length asts
         \<and> map (\<lambda>e. if is_string_key e \<noteq> 0 then map_option IS_STRING (key e)
                      else Some (IS_LONG (key_num e))) (elements shape)
             = map (\<lambda>a. Some (key_ast a)) asts
         \<and> map (\<lambda>e. Inr (elem_type e)) (elements shape)
             = map (\<lambda>a. zend_compile_type_internal h (type_ast a) True) asts"
    by simp
next
  assume "fst (zend_validate_array_shape h shape ht)"
  then have "list_all (\<lambda>e. element_ok h e ht) (elements shape)"
    by (simp add: validate_array_shape_for shape_for_pass_iff)
  then show "\<forall>e \<in> set (elements shape). \<forall>val. shape_lookup e ht = Some val \<longrightarrow>
           value_matches h (elem_type e) val"
    by (auto simp: list_all_iff element_ok_def)
next
  assume "shape_lookup e1 ht = Some val \<and> shape_lookup e2 ht = Some val"
  then show "fst (zend_validate_array_shape h (Zend_array_shape hash [e1, e2]) ht) \<longleftrightarrow>
           value_matches h (elem_type e1) val \<and> value_matches h (elem_type e2) val"
    by (simp add: validate_array_shape_for shape_for_pass_iff element_ok_def)
qed


theorem duplicate_keys_each_checked_witness:
  "zend_compile_array_shape_type example_host
      [ZEND_AST_SHAPE_ELEMENT (IS_STRING ''a'') 0 (ZEND_AST_TYPE 4),
       ZEND_AST_SHAPE_ELEMENT (IS_STRING ''a'') 0 (ZEND_AST_TYPE 6)]
    = Inr (ZEND_TYPE_SET_ARRAY_SHAPE_PTR example_host ZEND_TYPE_INIT_NONE
           (Zend_array_shape
              (zend_compute_shape_hash example_host
                 [Zend_shape_element (Some ''a'') 0 1 0 (Zend_type Ptr_null 16),
                  Zend_shape_element (Some ''a'') 0 1 0 (Zend_type Ptr_null 64)])
              [Zend_shape_element (Some ''a'') 0 1 0 (Zend_type Ptr_null 16),
               Zend_shape_element (Some ''a'') 0 1 0 (Zend_type Ptr_null 64)]))
   \<and> (\<exists>t. zend_compile_array_shape_type example_host
          [ZEND_AST_SHAPE_ELEMENT (IS_STRING ''a'') 0 (ZEND_AST_TYPE 4),
           ZEND_AST_SHAPE_ELEMENT (IS_STRING ''a'') 0 (ZEND_AST_TYPE 6)] = Inr t)
   \<and> (\<exists>shape. ZEND_TYPE_ARRAY_SHAPE_PTR
        (ZEND_TYPE_SET_ARRAY_SHAPE_PTR example_host ZEND_TYPE_INIT_NONE
           (Zend_array_shape
              (zend_compute_shape_hash example_host
                 [Zend_shape_element (Some ''a'') 0 1 0 (Zend_type Ptr_null 16),
                  Zend_shape_element (Some ''a'') 0 1 0 (Zend_type Ptr_null 64)])
              [Zend_shape_element (Some ''a'') 0 1 0 (Zend_type Ptr_null 16),
               Zend_shape_element (Some ''a'') 0 1 0 (Zend_type Ptr_null 64)])) = Some shape
      \<and> length (elements shape) = 2)
   \<and> (fst (zend_validate_array_shape example_host
          (Zend_array_shape 0
             [Zend_shape_element (Some ''a'') 0 1 0 (Zend_type Ptr_null 16),
              Zend_shape_element (Some ''a'') 0 1 0 (Zend_type Ptr_null 64)])
          [(Str_key ''a'', IS_STRING ''x'')]) \<longleftrightarrow>
        value_matches example_host (Zend_type Ptr_null 16) (IS_STRING ''x'')
        \<and> value_matches example_host (Zend_type Ptr_null 64) (IS_STRING ''x''))
   \<and> \<not> fst (zend_validate_array_shape example_host
          (Zend_array_shape 0
             [Zend_shape_element (Some ''a'') 0 1 0 (Zend_type Ptr_null 16),
              Zend_shape_element (Some ''a'') 0 1 0 (Zend_type Ptr_null 64)])
          [(Str_key ''a'', IS_STRING ''x'')])
   \<and> value_matches example_host (Zend_type Ptr_null 64) (IS_STRING ''x'')"
proof -
  let ?asts = "[ZEND_AST_SHAPE_ELEMENT (IS_STRING ''a'') 0 (ZEND_AST_TYPE 4),
                ZEND_AST_SHAPE_ELEMENT (IS_STRING ''a'') 0 (ZEND_AST_TYPE 6)]"
  let ?e1 = "Zend_shape_element (Some ''a'') 0 1 0 (Zend_type Ptr_null 16)"
  let ?e2 = "Zend_shape_element (Some ''a'') 0 1 0 (Zend_type Ptr_null 64)"
  let ?t = "ZEND_TYPE_SET_ARRAY_SHAPE_PTR example_host ZEND_TYPE_INIT_NONE
           (Zend_array_shape (zend_compute_shape_hash example_host [?e1, ?e2]) [?e1, ?e2])"
  let ?ht = "[(Str_key ''a'', IS_STRING ''x'')]"
  have c: "zend_compile_array_shape_type example_host ?asts = Inr ?t"
    by (simp add: example_host_def)
  let ?B = "\<lambda>shape. ZEND_TYPE_ARRAY_SHAPE_PTR ?t = Some shape \<and> ZEND_TYPE_IS_ARRAY_SHAPE ?t
         \<and> length (elements shape) = length ?asts
         \<and> map (\<lambda>e. if is_string_key e \<noteq> 0 then map_option IS_STRING (key e)
                      else Some (IS_LONG (key_num e))) (elements shape)
             = map (\<lambda>a. Some (key_ast a)) ?asts
         \<and> map (\<lambda>e. Inr (elem_type e)) (elements shape)
             = map (\<lambda>a. zend_compile_type_internal example_host (type_ast a) True) ?asts"
  have "\<exists>shape. ?B shape"
    by (rule duplicate_keys_each_checked [of example_host ?asts ?t, THEN conjunct2,
        THEN conjunct1, THEN mp, OF c])
  then obtain shape where b: "?B shape" ..
  have "ZEND_TYPE_ARRAY_SHAPE_PTR ?t = Some shape \<and> length (elements shape) = 2"
    using b [THEN conjunct1] b [THEN conjunct2, THEN conjunct2, THEN conjunct1] by simp
  then have ex: "\<exists>shape. ZEND_TYPE_ARRAY_SHAPE_PTR ?t = Some shape \<and> length (elements shape) = 2"
    by (intro exI)
  have l: "shape_lookup ?e1 ?ht = Some (IS_STRING ''x'') \<and> shape_lookup ?e2 ?ht = Some (IS_STRING ''x'')"
    by (simp add: shape_lookup_def zend_hash_find_def)
  have both: "fst (zend_validate_array_shape example_host (Zend_array_shape 0 [?e1, ?e2]) ?ht) \<longleftrightarrow>
        value_matches example_host (Zend_type Ptr_null 16) (IS_STRING ''x'')
        \<and> value_matches example_host (Zend_type Ptr_null 64) (IS_STRING ''x'')"
    using duplicate_keys_each_checked [of example_host _ _ _ ?ht ?e1 "IS_STRING ''x''" ?e2 0,
        THEN conjunct2, THEN conjunct2, THEN conjunct2, THEN mp, OF l]
    by simp
  have fails: "\<not> fst (zend_validate_array_shape example_host (Zend_array_shape 0 [?e1, ?e2]) ?ht)"
    by (simp add: validator_eval)
  have last_ok: "value_matches example_host (Zend_type Ptr_null 64) (IS_STRING ''x'')"
    by (simp add: value_matches_def validator_eval)
  have keys_ok: "list_all (\<lambda>a. ((\<exists>s. key_ast a = IS_STRING s) \<or> (\<exists>n. key_ast a = IS_LONG n))
        \<and> (\<exists>t. zend_compile_type_internal example_host (type_ast a) True = Inr t)) ?asts"
    by simp
  have compiles: "\<exists>t. zend_compile_array_shape_type example_host ?asts = Inr t"
    using duplicate_keys_each_checked [of example_host ?asts, THEN conjunct1] keys_ok
    by (rule iffD2)
  show ?thesis
    by (rule conjI [OF c conjI [OF compiles conjI [OF ex conjI [OF both conjI [OF fails last_ok]]]]])
qed

subsection \<open>References inside containers\<close>

text \<open>
  Claim C6. \<open>zend_check_type_extended\<close> dereferences its argument once, but both loops
  test the kind of a nested value without dereferencing it where the declared type at
  that position is an array-of or a shape. On the example host, \<open>array<array<int>>\<close>
  accepts \<open>[[1]]\<close> and a reference to \<open>[[1]]\<close>, and rejects the array whose element is a
  reference to \<open>[1]\<close>; \<open>array{a: array<int>}\<close> accepts \<open>['a' => [1]]\<close> and rejects the
  array whose entry \<open>a\<close> is a reference to \<open>[1]\<close>.
\<close>

theorem nested_reference_not_dereferenced:
  "zend_compile_type_internal example_host
      (ZEND_AST_TYPE_ARRAY_OF (ZEND_AST_TYPE_ARRAY_OF (ZEND_AST_TYPE 4))) True
    = Inr (Zend_type (Ptr_array_of (Zend_array_of
        (Zend_type (Ptr_array_of (Zend_array_of (Zend_type Ptr_null 16) 1)) 16777344) 2)) 16777344)
   \<and> zend_check_type_extended example_host
       (Zend_type (Ptr_array_of (Zend_array_of
          (Zend_type (Ptr_array_of (Zend_array_of (Zend_type Ptr_null 16) 1)) 16777344) 2)) 16777344)
       (IS_ARRAY [(Num_key 0, IS_ARRAY [(Num_key 0, IS_LONG 1)])])
   \<and> zend_check_type_extended example_host
       (Zend_type (Ptr_array_of (Zend_array_of
          (Zend_type (Ptr_array_of (Zend_array_of (Zend_type Ptr_null 16) 1)) 16777344) 2)) 16777344)
       (IS_REFERENCE (IS_ARRAY [(Num_key 0, IS_ARRAY [(Num_key 0, IS_LONG 1)])]))
   \<and> \<not> zend_check_type_extended example_host
       (Zend_type (Ptr_array_of (Zend_array_of
          (Zend_type (Ptr_array_of (Zend_array_of (Zend_type Ptr_null 16) 1)) 16777344) 2)) 16777344)
       (IS_ARRAY [(Num_key 0, IS_REFERENCE (IS_ARRAY [(Num_key 0, IS_LONG 1)]))])
   \<and> zend_check_type_extended example_host
       (Zend_type (Ptr_array_shape (Zend_array_shape 0
          [Zend_shape_element (Some ''a'') 0 1 0
             (Zend_type (Ptr_array_of (Zend_array_of (Zend_type Ptr_null 16) 1)) 16777344)])) 33554560)
       (IS_ARRAY [(Str_key ''a'', IS_ARRAY [(Num_key 0, IS_LONG 1)])])
   \<and> \<not> zend_check_type_extended example_host
       (Zend_type (Ptr_array_shape (Zend_array_shape 0
          [Zend_shape_element (Some ''a'') 0 1 0
             (Zend_type (Ptr_array_of (Zend_array_of (Zend_type Ptr_null 16) 1)) 16777344)])) 33554560)
       (IS_ARRAY [(Str_key ''a'', IS_REFERENCE (IS_ARRAY [(Num_key 0, IS_LONG 1)]))])"
  by (simp add: validator_eval ZEND_TYPE_SET_ARRAY_OF_PTR_def ZEND_TYPE_INIT_NONE_def)

section \<open>Properties of type equivalence\<close>

lemma zend_string_equals_iff: "zend_string_equals a b \<longleftrightarrow> a \<noteq> None \<and> a = b"
  by (auto simp: zend_string_equals_def split: option.splits)

lemma shape_elements_equivalent_Cons:
  "shape_elements_equivalent h (a # as) (b # bs) \<longleftrightarrow>
     element_keys_agree a b \<and> zend_types_are_equivalent h (elem_type a) (elem_type b)
     \<and> shape_elements_equivalent h as bs"
  by (cases "key a"; cases "key b")
    (auto simp: element_keys_agree_def zend_string_equals_def)

lemma shape_elements_equivalent_iff:
  "shape_elements_equivalent h as bs \<longleftrightarrow>
     list_all2 (\<lambda>ea eb. element_keys_agree ea eb
        \<and> zend_types_are_equivalent h (elem_type ea) (elem_type eb)) as bs"
proof (induction as arbitrary: bs)
  case Nil
  show ?case by (cases bs) simp_all
next
  case (Cons a as)
  show ?case
  proof (cases bs)
    case Nil
    then show ?thesis by simp
  next
    case (Cons b bs')
    show ?thesis unfolding Cons
      by (simp add: shape_elements_equivalent_Cons Cons.IH del: shape_elements_equivalent.simps)
  qed
qed

lemma equivalent_one_step:
  "zend_types_are_equivalent h a b \<longleftrightarrow>
     type_mask a AND ZEND_TYPE_EXTENDED_ARRAY_MASK = type_mask b AND ZEND_TYPE_EXTENDED_ARRAY_MASK
     \<and> (if ZEND_TYPE_IS_ARRAY_OF a then
           ZEND_TYPE_IS_ARRAY_OF b
           \<and> (\<exists>ao_a ao_b. ZEND_TYPE_ARRAY_OF_PTR a = Some ao_a \<and> ZEND_TYPE_ARRAY_OF_PTR b = Some ao_b
                \<and> zend_types_are_equivalent h (element_type ao_a) (element_type ao_b))
         else if ZEND_TYPE_IS_ARRAY_SHAPE a then
           ZEND_TYPE_IS_ARRAY_SHAPE b
           \<and> (\<exists>shape_a shape_b. ZEND_TYPE_ARRAY_SHAPE_PTR a = Some shape_a
                \<and> ZEND_TYPE_ARRAY_SHAPE_PTR b = Some shape_b
                \<and> shape_hash shape_a = shape_hash shape_b
                \<and> num_elements shape_a = num_elements shape_b
                \<and> list_all2 (\<lambda>ea eb. element_keys_agree ea eb
                      \<and> zend_types_are_equivalent h (elem_type ea) (elem_type eb))
                     (elements shape_a) (elements shape_b))
         else
           ZEND_TYPE_PURE_MASK h a = ZEND_TYPE_PURE_MASK h b
           \<and> (if ZEND_TYPE_HAS_NAME h a \<and> ZEND_TYPE_HAS_NAME h b
               then \<exists>name_a name_b. ZEND_TYPE_NAME a = Some name_a \<and> ZEND_TYPE_NAME b = Some name_b
                      \<and> zend_string_equals_ci name_a name_b
               else \<not> ZEND_TYPE_HAS_NAME h a \<and> \<not> ZEND_TYPE_HAS_NAME h b))"
proof (cases "type_mask a AND ZEND_TYPE_EXTENDED_ARRAY_MASK = type_mask b AND ZEND_TYPE_EXTENDED_ARRAY_MASK")
  case False
  then show ?thesis by (simp add: zend_types_are_equivalent.simps [of h a b])
next
  case tags: True
  show ?thesis
  proof (cases "ZEND_TYPE_IS_ARRAY_OF a")
    case True
    then show ?thesis using tags
      by (simp add: zend_types_are_equivalent.simps [of h a b] split: option.splits)
  next
    case nao: False
    show ?thesis
    proof (cases "ZEND_TYPE_IS_ARRAY_SHAPE a")
      case True
      then show ?thesis using tags nao
        by (auto simp: zend_types_are_equivalent.simps [of h a b] shape_elements_equivalent_iff
            split: option.splits)
    next
      case False
      then show ?thesis using tags nao
        by (simp add: zend_types_are_equivalent.simps [of h a b] split: option.splits)
    qed
  qed
qed


lemma and_or_zero:
  fixes m :: uint32_t
  shows "m AND (x OR y) = 0 \<longleftrightarrow> m AND x = 0 \<and> m AND y = 0"
    and "(x OR y) AND m = 0 \<longleftrightarrow> x AND m = 0 \<and> y AND m = 0"
  by (simp_all add: bit.conj_disj_distrib bit.conj_disj_distrib2 or_eq_0_iff)

lemma ext_mask_zero:
  "m AND ZEND_TYPE_EXTENDED_ARRAY_MASK = 0 \<longleftrightarrow>
     m AND ZEND_TYPE_ARRAY_OF_BIT = 0 \<and> m AND ZEND_TYPE_ARRAY_SHAPE_BIT = 0"
  by (simp add: ZEND_TYPE_EXTENDED_ARRAY_MASK_def and_or_zero)

lemma wf_elements_iff: "wf_elements h es \<longleftrightarrow> (\<forall>e\<in>set es. wf_element h e)"
  by (induction es) simp_all

lemma size_member: "e \<in> set es \<Longrightarrow> size (elem_type e) < size (Zend_type (Ptr_array_shape (Zend_array_shape hash es)) m)"
proof -
  assume "e \<in> set es"
  then have "size e \<le> size_list size es" by (rule size_list_estimation') simp
  then show ?thesis using size_elem_type [of e] by simp
qed

lemma wf_reflexive: "wf_type h t \<Longrightarrow> zend_types_are_equivalent h t t"
proof (induction "size t" arbitrary: t rule: less_induct)
  case less
  obtain p m where t: "t = Zend_type p m" by (cases t)
  show ?case
  proof (cases p)
    case Ptr_null
    then show ?thesis unfolding equivalent_one_step [of h t t] using less.prems
      by (simp add: t ZEND_TYPE_IS_ARRAY_OF_def
          ZEND_TYPE_IS_ARRAY_SHAPE_def ZEND_TYPE_HAS_NAME_def ext_mask_zero)
  next
    case (Ptr_name n)
    then show ?thesis unfolding equivalent_one_step [of h t t] using less.prems
      by (simp add: t ZEND_TYPE_IS_ARRAY_OF_def
          ZEND_TYPE_IS_ARRAY_SHAPE_def ZEND_TYPE_NAME_def zend_string_equals_ci_def ext_mask_zero)
  next
    case (Ptr_list l)
    then show ?thesis unfolding equivalent_one_step [of h t t] using less.prems
      by (simp add: t ZEND_TYPE_IS_ARRAY_OF_def
          ZEND_TYPE_IS_ARRAY_SHAPE_def ZEND_TYPE_HAS_NAME_def ext_mask_zero)
  next
    case (Ptr_array_of ao)
    obtain et d where ao: "ao = Zend_array_of et d" by (cases ao)
    have "wf_type h et" using less.prems by (simp add: t Ptr_array_of ao)
    moreover have "size et < size t" by (simp add: t Ptr_array_of ao)
    ultimately have "zend_types_are_equivalent h et et" using less.hyps by blast
    then show ?thesis unfolding equivalent_one_step [of h t t] using less.prems
      by (simp add: t Ptr_array_of ao ZEND_TYPE_IS_ARRAY_OF_def
          ZEND_TYPE_ARRAY_OF_PTR_def)
  next
    case (Ptr_array_shape sh)
    obtain hash es where sh: "sh = Zend_array_shape hash es" by (cases sh)
    have wf: "\<forall>e\<in>set es. wf_element h e"
      using less.prems by (simp add: t Ptr_array_shape sh wf_elements_iff)
    have "element_keys_agree e e \<and> zend_types_are_equivalent h (elem_type e) (elem_type e)"
      if e: "e \<in> set es" for e
    proof -
      have w: "wf_element h e" using wf e by blast
      have "size (elem_type e) < size t"
        using size_member [OF e] by (simp add: t Ptr_array_shape sh)
      moreover have "wf_type h (elem_type e)" using w by (cases e) simp
      ultimately have "zend_types_are_equivalent h (elem_type e) (elem_type e)"
        using less.hyps by blast
      moreover have "element_keys_agree e e"
        using w by (cases e) (simp add: element_keys_agree_def)
      ultimately show ?thesis by simp
    qed
    then have "list_all2 (\<lambda>ea eb. element_keys_agree ea eb
        \<and> zend_types_are_equivalent h (elem_type ea) (elem_type eb)) es es"
      by (simp add: list_all2_same)
    then show ?thesis unfolding equivalent_one_step [of h t t] using less.prems
      by (simp add: t Ptr_array_shape sh ZEND_TYPE_IS_ARRAY_OF_def
          ZEND_TYPE_IS_ARRAY_SHAPE_def ZEND_TYPE_ARRAY_SHAPE_PTR_def)
  qed
qed

lemma host_ok_bits:
  assumes "host_ok h"
  shows "MAY_BE_ARRAY h AND ZEND_TYPE_ARRAY_OF_BIT = 0"
    and "MAY_BE_ARRAY h AND ZEND_TYPE_ARRAY_SHAPE_BIT = 0"
    and "MAY_BE_NULL h AND ZEND_TYPE_ARRAY_OF_BIT = 0"
    and "MAY_BE_NULL h AND ZEND_TYPE_ARRAY_SHAPE_BIT = 0"
    and "MAY_BE_NULL h AND ZEND_TYPE_NAME_BIT h = 0"
    and "ZEND_TYPE_NAME_BIT h AND ZEND_TYPE_ARRAY_OF_BIT = 0"
    and "ZEND_TYPE_NAME_BIT h AND ZEND_TYPE_ARRAY_SHAPE_BIT = 0"
    and "ZEND_TYPE_LIST_BIT h AND ZEND_TYPE_ARRAY_OF_BIT = 0"
    and "ZEND_TYPE_LIST_BIT h AND ZEND_TYPE_ARRAY_SHAPE_BIT = 0"
    and "ZEND_TYPE_LIST_BIT h AND ZEND_TYPE_NAME_BIT h = 0"
    and "ZEND_TYPE_UNION_BIT h AND ZEND_TYPE_ARRAY_OF_BIT = 0"
    and "ZEND_TYPE_UNION_BIT h AND ZEND_TYPE_ARRAY_SHAPE_BIT = 0"
    and "ZEND_TYPE_UNION_BIT h AND ZEND_TYPE_NAME_BIT h = 0"
    and "ZEND_TYPE_INTERSECTION_BIT h AND ZEND_TYPE_ARRAY_OF_BIT = 0"
    and "ZEND_TYPE_INTERSECTION_BIT h AND ZEND_TYPE_ARRAY_SHAPE_BIT = 0"
    and "ZEND_TYPE_INTERSECTION_BIT h AND ZEND_TYPE_NAME_BIT h = 0"
    and "ZEND_TYPE_CODE_MASK h code AND ZEND_TYPE_ARRAY_OF_BIT = 0"
    and "ZEND_TYPE_CODE_MASK h code AND ZEND_TYPE_ARRAY_SHAPE_BIT = 0"
    and "ZEND_TYPE_CODE_MASK h code AND ZEND_TYPE_NAME_BIT h = 0"
  using assms by (simp_all add: host_ok_def ext_mask_zero and_or_zero)

lemma or_and_bit:
  fixes m :: uint32_t
  shows "(m OR x) AND b = (m AND b) OR (x AND b)"
  by (simp add: bit.conj_disj_distrib2)

lemma tag_bits:
  "ZEND_TYPE_ARRAY_OF_BIT \<noteq> 0" "ZEND_TYPE_ARRAY_SHAPE_BIT \<noteq> 0"
  "ZEND_TYPE_ARRAY_SHAPE_BIT AND ZEND_TYPE_ARRAY_OF_BIT = 0"
  by (simp_all add: ZEND_TYPE_ARRAY_OF_BIT_def ZEND_TYPE_ARRAY_SHAPE_BIT_def)

lemma wf_nullable:
  assumes "host_ok h" "wf_type h t"
  shows "wf_ptr h (type_mask t OR MAY_BE_NULL h) (ptr t)"
proof (cases t)
  case (Zend_type p m)
  then show ?thesis using assms(2) host_ok_bits [OF assms(1)]
    by (cases p) (simp_all add: or_and_bit)
qed

lemma compile_wf_all:
  "host_ok h \<Longrightarrow> (\<forall>t. zend_compile_type_internal h ast p = Inr t \<longrightarrow> wf_type h t)"
  "host_ok h \<Longrightarrow> (\<forall>ts. compile_type_list h asts p = Inr ts \<longrightarrow> True)"
  "host_ok h \<Longrightarrow> (\<forall>t. zend_compile_array_of_type h ast' = Inr t \<longrightarrow> wf_type h t)"
  "host_ok h \<Longrightarrow> (\<forall>es. compile_shape_elements h elems = Inr es \<longrightarrow> wf_elements h es)"
  "host_ok h \<Longrightarrow> (\<forall>t. zend_compile_array_shape_type h elems' = Inr t \<longrightarrow> wf_type h t)"
proof (induction h ast p and h asts p and h ast' and h elems and h elems'
    rule: zend_compile_type_internal_compile_type_list_zend_compile_array_of_type_compile_shape_elements_zend_compile_array_shape_type.induct)
qed (auto simp: host_ok_bits or_and_bit tag_bits wf_nullable ZEND_TYPE_SET_ARRAY_OF_PTR_def
    ZEND_TYPE_SET_ARRAY_SHAPE_PTR_def ZEND_TYPE_INIT_NONE_def
    split: sum.splits zval.splits if_splits option.splits)

lemma compile_wf:
  "host_ok h \<Longrightarrow> zend_compile_type_internal h ast p = Inr t \<Longrightarrow> wf_type h t"
  using compile_wf_all(1) by blast


lemma compile_persistent_all:
  "zend_compile_type_internal h ast p = zend_compile_type_internal h ast True"
  "compile_type_list h asts p = compile_type_list h asts True"
  "zend_compile_array_of_type h ast' = zend_compile_array_of_type h ast'"
  "compile_shape_elements h elems = compile_shape_elements h elems"
  "zend_compile_array_shape_type h elems' = zend_compile_array_shape_type h elems'"
proof (induction h ast p and h asts p and h ast' and h elems and h elems'
    rule: zend_compile_type_internal_compile_type_list_zend_compile_array_of_type_compile_shape_elements_zend_compile_array_shape_type.induct)
qed (auto split: sum.splits)

lemma compile_persistent:
  "zend_compile_type_internal h ast p = zend_compile_type_internal h ast p'"
  using compile_persistent_all(1) [of h ast p] compile_persistent_all(1) [of h ast p'] by simp

lemma list_all2_map_eq:
  "list_all2 P xs ys \<Longrightarrow> (\<And>x y. P x y \<Longrightarrow> f x = f y) \<Longrightarrow> map f xs = map f ys"
  by (induction rule: list_all2_induct) simp_all

lemma compiled_shape_tags:
  assumes "host_ok h"
  shows "\<not> ZEND_TYPE_IS_ARRAY_OF (ZEND_TYPE_SET_ARRAY_SHAPE_PTR h ZEND_TYPE_INIT_NONE sh)"
    and "ZEND_TYPE_IS_ARRAY_SHAPE (ZEND_TYPE_SET_ARRAY_SHAPE_PTR h ZEND_TYPE_INIT_NONE sh)"
    and "ZEND_TYPE_ARRAY_SHAPE_PTR (ZEND_TYPE_SET_ARRAY_SHAPE_PTR h ZEND_TYPE_INIT_NONE sh) = Some sh"
  using host_ok_bits [OF assms]
  by (simp_all add: ZEND_TYPE_IS_ARRAY_OF_def ZEND_TYPE_IS_ARRAY_SHAPE_def ZEND_TYPE_ARRAY_SHAPE_PTR_def
      ZEND_TYPE_SET_ARRAY_SHAPE_PTR_def ZEND_TYPE_INIT_NONE_def or_and_bit tag_bits)

lemma equivalent_compiled_shapes_keys:
  assumes h: "host_ok h"
    and a: "zend_compile_array_shape_type h asts = Inr a"
    and b: "zend_compile_array_shape_type h asts' = Inr b"
    and eq: "zend_types_are_equivalent h a b"
  shows "map key_ast asts = map key_ast asts'"
    and "map (\<lambda>e. attr e AND 1 \<noteq> 0) asts = map (\<lambda>e. attr e AND 1 \<noteq> 0) asts'"
proof -
  let ?kf = "\<lambda>e. if is_string_key e \<noteq> 0 then map_option IS_STRING (key e)
                else Some (IS_LONG (key_num e))"
  let ?of = "\<lambda>a. if attr a AND 1 \<noteq> 0 then (1 :: uint8_t) else 0"
  from a obtain es where es: "compile_shape_elements h asts = Inr es"
    and ta: "a = ZEND_TYPE_SET_ARRAY_SHAPE_PTR h ZEND_TYPE_INIT_NONE
                 (Zend_array_shape (zend_compute_shape_hash h es) es)"
    by (auto split: sum.splits)
  from b obtain es' where es': "compile_shape_elements h asts' = Inr es'"
    and tb: "b = ZEND_TYPE_SET_ARRAY_SHAPE_PTR h ZEND_TYPE_INIT_NONE
                 (Zend_array_shape (zend_compute_shape_hash h es') es')"
    by (auto split: sum.splits)
  have l: "list_all2 (\<lambda>ea eb. element_keys_agree ea eb
        \<and> zend_types_are_equivalent h (elem_type ea) (elem_type eb)) es es'"
    using eq unfolding equivalent_one_step [of h a b]
    by (simp add: ta tb compiled_shape_tags [OF h])
  have k: "map ?kf es = map ?kf es'"
    using l by (rule list_all2_map_eq) (auto simp: element_keys_agree_def)
  have o: "map is_optional es = map is_optional es'"
    using l by (rule list_all2_map_eq) (auto simp: element_keys_agree_def)
  from k compile_shape_elements_keys [OF es] compile_shape_elements_keys [OF es']
  have "map (\<lambda>a. Some (key_ast a)) asts = map (\<lambda>a. Some (key_ast a)) asts'" by simp
  from arg_cong [OF this, of "map the"]
  show "map key_ast asts = map key_ast asts'" by (simp add: comp_def)
  from o compile_shape_elements_keys [OF es] compile_shape_elements_keys [OF es']
  have m: "map ?of asts = map ?of asts'" by simp
  have r: "((if c then (1 :: uint8_t) else 0) = 0) = (\<not> c)" for c by simp
  from arg_cong [OF m, of "map (\<lambda>w. w \<noteq> 0)"]
  show "map (\<lambda>e. attr e AND 1 \<noteq> 0) asts = map (\<lambda>e. attr e AND 1 \<noteq> 0) asts'"
    by (simp add: comp_def r)
qed

lemma host_ok_example: "host_ok example_host"
  by (simp add: host_ok_def example_host_def ZEND_TYPE_EXTENDED_ARRAY_MASK_def
      ZEND_TYPE_ARRAY_OF_BIT_def ZEND_TYPE_ARRAY_SHAPE_BIT_def and.assoc)

text \<open>
  Claim C3. \<open>zend_types_are_equivalent\<close> returns true exactly when the extended-array tag
  bits of the two masks are equal and: for array-of types, both are array-of and their
  element types are equivalent; for shapes, both are shapes, the stored hashes are equal,
  the element counts are equal and the elements agree pairwise, in declaration order, on
  key kind, key, optional flag, with equivalent element types; otherwise the primitive
  masks are equal and either both carry a name and the names are equal up to ASCII case,
  or neither carries a name. Consequently, on a host that leaves the two tag bits free,
  two compilations of the same type node give equivalent type values, whatever their
  allocation flags; and two compiled shapes that are equivalent have the same sequence
  of keys and the same sequence of optional flags, so that reordering distinct keys or
  adding a key gives a shape that is not equivalent.
\<close>

theorem types_are_equivalent_spec:
  "(zend_types_are_equivalent h a b \<longleftrightarrow>
     type_mask a AND ZEND_TYPE_EXTENDED_ARRAY_MASK = type_mask b AND ZEND_TYPE_EXTENDED_ARRAY_MASK
     \<and> (if ZEND_TYPE_IS_ARRAY_OF a then
           ZEND_TYPE_IS_ARRAY_OF b
           \<and> (\<exists>ao_a ao_b. ZEND_TYPE_ARRAY_OF_PTR a = Some ao_a \<and> ZEND_TYPE_ARRAY_OF_PTR b = Some ao_b
                \<and> zend_types_are_equivalent h (element_type ao_a) (element_type ao_b))
         else if ZEND_TYPE_IS_ARRAY_SHAPE a then
           ZEND_TYPE_IS_ARRAY_SHAPE b
           \<and> (\<exists>shape_a shape_b. ZEND_TYPE_ARRAY_SHAPE_PTR a = Some shape_a
                \<and> ZEND_TYPE_ARRAY_SHAPE_PTR b = Some shape_b
                \<and> shape_hash shape_a = shape_hash shape_b
                \<and> num_elements shape_a = num_elements shape_b
                \<and> list_all2 (\<lambda>ea eb. element_keys_agree ea eb
                      \<and> zend_types_are_equivalent h (elem_type ea) (elem_type eb))
                     (elements shape_a) (elements shape_b))
         else
           ZEND_TYPE_PURE_MASK h a = ZEND_TYPE_PURE_MASK h b
           \<and> (if ZEND_TYPE_HAS_NAME h a \<and> ZEND_TYPE_HAS_NAME h b
               then \<exists>name_a name_b. ZEND_TYPE_NAME a = Some name_a \<and> ZEND_TYPE_NAME b = Some name_b
                      \<and> zend_string_equals_ci name_a name_b
               else \<not> ZEND_TYPE_HAS_NAME h a \<and> \<not> ZEND_TYPE_HAS_NAME h b)))
   \<and> (host_ok h \<longrightarrow> zend_compile_type_internal h ast p = Inr t \<longrightarrow>
        zend_compile_type_internal h ast p' = Inr t' \<longrightarrow> zend_types_are_equivalent h t t')
   \<and> (host_ok h \<longrightarrow> zend_compile_array_shape_type h asts = Inr sa \<longrightarrow>
        zend_compile_array_shape_type h asts' = Inr sb \<longrightarrow> zend_types_are_equivalent h sa sb \<longrightarrow>
          map key_ast asts = map key_ast asts'
          \<and> map (\<lambda>e. attr e AND 1 \<noteq> 0) asts = map (\<lambda>e. attr e AND 1 \<noteq> 0) asts')"
proof (intro conjI impI)
  show "zend_types_are_equivalent h a b \<longleftrightarrow>
     type_mask a AND ZEND_TYPE_EXTENDED_ARRAY_MASK = type_mask b AND ZEND_TYPE_EXTENDED_ARRAY_MASK
     \<and> (if ZEND_TYPE_IS_ARRAY_OF a then
           ZEND_TYPE_IS_ARRAY_OF b
           \<and> (\<exists>ao_a ao_b. ZEND_TYPE_ARRAY_OF_PTR a = Some ao_a \<and> ZEND_TYPE_ARRAY_OF_PTR b = Some ao_b
                \<and> zend_types_are_equivalent h (element_type ao_a) (element_type ao_b))
         else if ZEND_TYPE_IS_ARRAY_SHAPE a then
           ZEND_TYPE_IS_ARRAY_SHAPE b
           \<and> (\<exists>shape_a shape_b. ZEND_TYPE_ARRAY_SHAPE_PTR a = Some shape_a
                \<and> ZEND_TYPE_ARRAY_SHAPE_PTR b = Some shape_b
                \<and> shape_hash shape_a = shape_hash shape_b
                \<and> num_elements shape_a = num_elements shape_b
                \<and> list_all2 (\<lambda>ea eb. element_keys_agree ea eb
                      \<and> zend_types_are_equivalent h (elem_type ea) (elem_type eb))
                     (elements shape_a) (elements shape_b))
         else
           ZEND_TYPE_PURE_MASK h a = ZEND_TYPE_PURE_MASK h b
           \<and> (if ZEND_TYPE_HAS_NAME h a \<and> ZEND_TYPE_HAS_NAME h b
               then \<exists>name_a name_b. ZEND_TYPE_NAME a = Some name_a \<and> ZEND_TYPE_NAME b = Some name_b
                      \<and> zend_string_equals_ci name_a name_b
               else \<not> ZEND_TYPE_HAS_NAME h a \<and> \<not> ZEND_TYPE_HAS_NAME h b))"
    by (rule equivalent_one_step)
next
  assume h: "host_ok h" and t: "zend_compile_type_internal h ast p = Inr t"
    and t': "zend_compile_type_internal h ast p' = Inr t'"
  have "t' = t" using t t' compile_persistent [of h ast p p'] by simp
  then show "zend_types_are_equivalent h t t'"
    using wf_reflexive [OF compile_wf [OF h t]] by simp
next
  assume "host_ok h" "zend_compile_array_shape_type h asts = Inr sa"
    "zend_compile_array_shape_type h asts' = Inr sb" "zend_types_are_equivalent h sa sb"
  then show "map key_ast asts = map key_ast asts'"
    by (rule equivalent_compiled_shapes_keys(1))
next
  assume "host_ok h" "zend_compile_array_shape_type h asts = Inr sa"
    "zend_compile_array_shape_type h asts' = Inr sb" "zend_types_are_equivalent h sa sb"
  then show "map (\<lambda>e. attr e AND 1 \<noteq> 0) asts = map (\<lambda>e. attr e AND 1 \<noteq> 0) asts'"
    by (rule equivalent_compiled_shapes_keys(2))
qed

theorem types_are_equivalent_spec_witness:
  "\<exists>a b c.
     zend_compile_array_shape_type example_host
       [ZEND_AST_SHAPE_ELEMENT (IS_STRING ''id'') 0 (ZEND_AST_TYPE 4),
        ZEND_AST_SHAPE_ELEMENT (IS_STRING ''name'') 0 (ZEND_AST_TYPE 6)] = Inr a
     \<and> zend_compile_array_shape_type example_host
       [ZEND_AST_SHAPE_ELEMENT (IS_STRING ''name'') 0 (ZEND_AST_TYPE 6),
        ZEND_AST_SHAPE_ELEMENT (IS_STRING ''id'') 0 (ZEND_AST_TYPE 4)] = Inr b
     \<and> zend_compile_array_shape_type example_host
       [ZEND_AST_SHAPE_ELEMENT (IS_STRING ''id'') 0 (ZEND_AST_TYPE 4),
        ZEND_AST_SHAPE_ELEMENT (IS_STRING ''name'') 0 (ZEND_AST_TYPE 6),
        ZEND_AST_SHAPE_ELEMENT (IS_STRING ''age'') 1 (ZEND_AST_TYPE 4)] = Inr c
     \<and> host_ok example_host
     \<and> zend_types_are_equivalent example_host a a
     \<and> \<not> zend_types_are_equivalent example_host a b
     \<and> \<not> zend_types_are_equivalent example_host a c"
proof -
  let ?A = "[ZEND_AST_SHAPE_ELEMENT (IS_STRING ''id'') 0 (ZEND_AST_TYPE 4),
        ZEND_AST_SHAPE_ELEMENT (IS_STRING ''name'') 0 (ZEND_AST_TYPE 6)]"
  let ?B = "[ZEND_AST_SHAPE_ELEMENT (IS_STRING ''name'') 0 (ZEND_AST_TYPE 6),
        ZEND_AST_SHAPE_ELEMENT (IS_STRING ''id'') 0 (ZEND_AST_TYPE 4)]"
  let ?C = "[ZEND_AST_SHAPE_ELEMENT (IS_STRING ''id'') 0 (ZEND_AST_TYPE 4),
        ZEND_AST_SHAPE_ELEMENT (IS_STRING ''name'') 0 (ZEND_AST_TYPE 6),
        ZEND_AST_SHAPE_ELEMENT (IS_STRING ''age'') 1 (ZEND_AST_TYPE 4)]"
  obtain a where a: "zend_compile_array_shape_type example_host ?A = Inr a" by simp
  obtain b where b: "zend_compile_array_shape_type example_host ?B = Inr b" by simp
  obtain c where c: "zend_compile_array_shape_type example_host ?C = Inr c" by simp
  note hk = host_ok_example
  have a': "zend_compile_type_internal example_host (ZEND_AST_TYPE_ARRAY_SHAPE ?A) True = Inr a"
    using a by simp
  have aa: "zend_types_are_equivalent example_host a a"
    by (rule types_are_equivalent_spec [THEN conjunct2, THEN conjunct1, rule_format, OF hk a' a'])
  have ab: "\<not> zend_types_are_equivalent example_host a b"
    using types_are_equivalent_spec [THEN conjunct2, THEN conjunct2, rule_format, OF hk a b]
    by auto
  have ac: "\<not> zend_types_are_equivalent example_host a c"
    using types_are_equivalent_spec [THEN conjunct2, THEN conjunct2, rule_format, OF hk a c]
    by auto
  show ?thesis using a b c hk aa ab ac by blast
qed

section \<open>Properties of the stringifier\<close>

lemma append_type_name_simps:
  "append_type_name True name (buf, first) = ((if first then buf else buf @ ''|'') @ name, False)"
  "append_type_name False name st = st"
  by (simp_all add: append_type_name_def)

lemmas stringify_eval =
  zend_type_to_string_extended.simps builtin_type_to_string_def append_type_name_simps
  smart_str_append_long_def
  ZEND_TYPE_IS_ARRAY_OF_def ZEND_TYPE_IS_ARRAY_SHAPE_def ZEND_TYPE_HAS_EXTENDED_ARRAY_def
  ZEND_TYPE_EXTENDED_ARRAY_MASK_def ZEND_TYPE_ARRAY_OF_BIT_def ZEND_TYPE_ARRAY_SHAPE_BIT_def
  ZEND_TYPE_ARRAY_OF_PTR_def ZEND_TYPE_ARRAY_SHAPE_PTR_def
  ZEND_TYPE_HAS_LIST_def ZEND_TYPE_LIST_def ZEND_TYPE_HAS_NAME_def ZEND_TYPE_NAME_def
  ZEND_TYPE_PURE_MASK_def example_host_def Let_def

lemma join_with_Cons:
  "join_with sep (x # xs) = x @ (if xs = [] then [] else sep @ join_with sep xs)"
  by (cases xs) simp_all

lemma to_string_array_of:
  "ZEND_TYPE_IS_ARRAY_OF t \<Longrightarrow> ZEND_TYPE_ARRAY_OF_PTR t = Some ao \<Longrightarrow>
   zend_type_to_string_extended h t
     = map_option (\<lambda>s. ''array<'' @ s @ ''>'') (zend_type_to_string_extended h (element_type ao))"
  by (simp add: zend_type_to_string_extended.simps [of h t] split: option.splits)

lemma shape_elements_to_string_join:
  "map (\<lambda>e. zend_type_to_string_extended h (elem_type e)) es = map Some ss \<Longrightarrow>
   shape_elements_to_string h i es buf
     = Some (buf @ (if i > 0 \<and> es \<noteq> [] then '', '' else [])
             @ join_with '', '' (map2 (\<lambda>e s. element_label e @ '': '' @ s) es ss))"
proof (induction es arbitrary: i buf ss)
  case Nil
  then show ?case by simp
next
  case (Cons e es)
  then obtain s ss' where ss: "ss = s # ss'"
    and s: "zend_type_to_string_extended h (elem_type e) = Some s"
    and r: "map (\<lambda>e. zend_type_to_string_extended h (elem_type e)) es = map Some ss'"
    by (cases ss) auto
  have l: "length ss' = length es" using r by (metis length_map)
  show ?case
    using Cons.IH [OF r, of "Suc i"] s l
    by (auto simp: ss Let_def join_with_Cons element_label_def smart_str_append_long_def)
qed

lemma type_list_to_string_join:
  "map (zend_type_to_string_extended h) ts = map Some ss \<Longrightarrow>
   type_list_to_string h sep i ts buf
     = Some (buf @ (if i > 0 \<and> ts \<noteq> [] then sep else []) @ join_with sep ss)"
proof (induction ts arbitrary: i buf ss)
  case Nil
  then show ?case by simp
next
  case (Cons t ts)
  then obtain s ss' where ss: "ss = s # ss'"
    and s: "zend_type_to_string_extended h t = Some s"
    and r: "map (zend_type_to_string_extended h) ts = map Some ss'"
    by (cases ss) auto
  have l: "length ss' = length ts" using r by (metis length_map)
  show ?case
    using Cons.IH [OF r, of "Suc i"] s l
    by (auto simp: ss Let_def join_with_Cons)
qed

lemma to_string_shape:
  assumes "\<not> ZEND_TYPE_IS_ARRAY_OF t" "ZEND_TYPE_IS_ARRAY_SHAPE t"
    and "ZEND_TYPE_ARRAY_SHAPE_PTR t = Some shape"
    and "map (\<lambda>e. zend_type_to_string_extended h (elem_type e)) (elements shape) = map Some ss"
  shows "zend_type_to_string_extended h t
     = Some (''array{''
         @ join_with '', '' (map2 (\<lambda>e s. element_label e @ '': '' @ s) (elements shape) ss) @ ''}'')"
  using assms(1-3) shape_elements_to_string_join [OF assms(4), of 0 "''array{''"]
  by (simp add: zend_type_to_string_extended.simps [of h t])

lemma to_string_list:
  assumes "\<not> ZEND_TYPE_IS_ARRAY_OF t" "\<not> ZEND_TYPE_IS_ARRAY_SHAPE t" "ZEND_TYPE_HAS_LIST h t"
    and "ZEND_TYPE_LIST t = Some types"
    and "map (zend_type_to_string_extended h) types = map Some ss"
  shows "zend_type_to_string_extended h t
     = Some (join_with (if type_mask t AND ZEND_TYPE_INTERSECTION_BIT h \<noteq> 0 then ''&'' else ''|'') ss)"
  using assms(1-4) type_list_to_string_join [OF assms(5), of _ 0 "[]"]
  by (simp add: zend_type_to_string_extended.simps [of h t])

lemma to_string_name:
  assumes "\<not> ZEND_TYPE_IS_ARRAY_OF t" "\<not> ZEND_TYPE_IS_ARRAY_SHAPE t" "\<not> ZEND_TYPE_HAS_LIST h t"
    and "ZEND_TYPE_HAS_NAME h t"
  shows "zend_type_to_string_extended h t = ZEND_TYPE_NAME t"
  using assms by (simp add: zend_type_to_string_extended.simps [of h t])

lemma to_string_builtin:
  assumes "\<not> ZEND_TYPE_IS_ARRAY_OF t" "\<not> ZEND_TYPE_IS_ARRAY_SHAPE t" "\<not> ZEND_TYPE_HAS_LIST h t"
    and "\<not> ZEND_TYPE_HAS_NAME h t"
  shows "zend_type_to_string_extended h t = Some (builtin_type_to_string h t)"
  using assms by (simp add: zend_type_to_string_extended.simps [of h t])

lemma append_type_names_fold:
  "fold (\<lambda>(c, name). append_type_name c name) tbl (buf, first)
     = (buf @ (if first then join_with ''|'' (map snd (filter fst tbl))
               else concat (map (\<lambda>name. CHR ''|'' # name) (map snd (filter fst tbl)))),
        first \<and> filter fst tbl = [])"
proof (induction tbl arbitrary: buf first)
  case Nil
  then show ?case by simp
next
  case (Cons p tbl)
  obtain c name where p: "p = (c, name)" by (cases p)
  have j: "join_with ''|'' (x # xs) = x @ concat (map (\<lambda>name. CHR ''|'' # name) xs)" for x xs
    by (induction xs arbitrary: x) (simp_all add: join_with_Cons)
  show ?case
    by (cases c; cases first) (simp_all add: p Cons.IH append_type_name_simps j)
qed

lemma builtin_type_to_string_names:
  assumes "\<not> ZEND_TYPE_HAS_EXTENDED_ARRAY t"
  shows "builtin_type_to_string h t =
     (let m = ZEND_TYPE_PURE_MASK h t;
          non_null = m AND NOT (MAY_BE_NULL h);
          nullable = (m AND MAY_BE_NULL h \<noteq> 0 \<and> non_null \<noteq> 0 \<and> non_null AND (non_null - 1) = 0);
          names = type_names_of h (if nullable then non_null else m)
      in (if nullable then ''?'' else []) @ (if names = [] then ''unknown'' else join_with ''|'' names))"
proof -
  define m where "m = ZEND_TYPE_PURE_MASK h t"
  define non_null where "non_null = m AND NOT (MAY_BE_NULL h)"
  define nullable where "nullable \<longleftrightarrow>
     m AND MAY_BE_NULL h \<noteq> 0 \<and> non_null \<noteq> 0 \<and> non_null AND (non_null - 1) = 0"
  define m' where "m' = (if nullable then non_null else m)"
  define buf where "buf = (if nullable then ''?'' else [])"
  define tbl where "tbl = map (\<lambda>(c, name). (m' AND c \<noteq> 0, name)) (type_name_table h)"
  have f: "map snd (filter fst tbl) = type_names_of h m'"
    unfolding tbl_def type_names_of_def by (induction "type_name_table h") (auto simp: filter_map comp_def case_prod_unfold)
  have "builtin_type_to_string h t =
     (let st = fold (\<lambda>(c, name). append_type_name c name) tbl (buf, True)
      in if snd st then fst st @ ''unknown'' else fst st)"
    using assms
    unfolding builtin_type_to_string_def Let_def tbl_def type_name_table_def
      m_def [symmetric] non_null_def [symmetric] nullable_def [symmetric] m'_def [symmetric]
      buf_def [symmetric]
    by simp
  also have "\<dots> = buf @ (if type_names_of h m' = [] then ''unknown'' else join_with ''|'' (type_names_of h m'))"
  proof -
    have g: "(filter fst tbl = []) = (type_names_of h m' = [])"
      using f by (metis map_is_Nil_conv)
    show ?thesis unfolding append_type_names_fold Let_def by (simp add: f g)
  qed
  finally show ?thesis
    unfolding Let_def m_def [symmetric] non_null_def [symmetric] nullable_def [symmetric]
      m'_def [symmetric] buf_def [symmetric] .
qed

text \<open>
  Claim C8. On the array-of, shape, list and class branches the stringifier produces what
  the claim says (lemmas \<open>to_string_array_of\<close>, \<open>to_string_shape\<close>, \<open>to_string_list\<close>,
  \<open>to_string_name\<close>). On a plain mask it does not render each set bit as its keyword:
  a keyword is appended whenever the mask intersects the keyword's constant
  (\<open>builtin_type_to_string_names\<close>), and \<open>MAY_BE_BOOL\<close> is the union of the bits of
  \<open>false\<close> and \<open>true\<close>, which have keywords of their own. So the type \<open>bool\<close> is
  rendered \<open>bool|false|true\<close>, the type \<open>false\<close> is rendered \<open>bool|false\<close>, \<open>true\<close> is
  rendered \<open>bool|true\<close>, and \<open>?false\<close>, a mask of null and one other bit, is rendered
  \<open>?bool|false\<close>.
\<close>

theorem bool_rendered_with_false_and_true:
  "zend_compile_type_internal example_host (ZEND_AST_TYPE 18) True = Inr (Zend_type Ptr_null 12)
   \<and> zend_type_to_string_extended example_host (Zend_type Ptr_null 12) = Some ''bool|false|true''
   \<and> zend_compile_type_internal example_host (ZEND_AST_TYPE 2) True = Inr (Zend_type Ptr_null 4)
   \<and> zend_type_to_string_extended example_host (Zend_type Ptr_null 4) = Some ''bool|false''
   \<and> zend_compile_type_internal example_host (ZEND_AST_TYPE 3) True = Inr (Zend_type Ptr_null 8)
   \<and> zend_type_to_string_extended example_host (Zend_type Ptr_null 8) = Some ''bool|true''
   \<and> zend_compile_type_internal example_host (ZEND_AST_NULLABLE_TYPE (ZEND_AST_TYPE 2)) True
         = Inr (Zend_type Ptr_null 6)
   \<and> zend_type_to_string_extended example_host (Zend_type Ptr_null 6) = Some ''?bool|false''
   \<and> zend_type_to_string_extended example_host (Zend_type Ptr_null 16) = Some ''int''
   \<and> zend_type_to_string_extended example_host (Zend_type Ptr_null 18) = Some ''?int''"
  by (simp add: stringify_eval)

end
